theory Spec2Isabelle
  imports Complex_Main "HOL-Library.Word" "HOL-Library.AList"
begin

section \<open>Basil disease detection: feature extraction and two-stage prediction\<close>

text \<open>
  A shallow embedding of \<^verbatim>\<open>backend/app/prediction.py\<close> and
  \<^verbatim>\<open>backend/app/disease_info.py\<close>.

  Conventions of the embedding:
  \<^item> a raised Python \<^verbatim>\<open>Exception\<close> is the value \<open>Inl e\<close>, where \<open>e\<close> is the text
    \<^verbatim>\<open>str(e)\<close> of the exception; a returned value is \<open>Inr v\<close>;
  \<^item> a \<^verbatim>\<open>uint8\<close> array element is an \<open>8 word\<close>, so that array arithmetic wraps
    modulo 256 as numpy's does;
  \<^item> a Python \<^verbatim>\<open>float\<close> is a \<open>real\<close>: rounding of IEEE doubles is not modelled;
  \<^item> the image-processing routines of OpenCV and scikit-image and the trained
    scikit-learn artifacts are not part of the repository; they are parameters
    (the record \<open>cvlib\<close>, the records \<open>classifier\<close> and \<open>encoder\<close>);
  \<^item> elementary numpy operations on which a property depends (slicing, mean,
    subtraction, histogram) are written out.
\<close>

subsection \<open>Exceptions\<close>

type_synonym exn = string
type_synonym 'a raises = "exn + 'a"

definition bind_exn :: "'a raises \<Rightarrow> ('a \<Rightarrow> 'b raises) \<Rightarrow> 'b raises" where
  "bind_exn m f = (case m of Inl e \<Rightarrow> Inl e | Inr v \<Rightarrow> f v)"

subsection \<open>Arrays\<close>

text \<open>
  A colour image is a \<open>height \<times> width \<times> 3\<close> array of \<^verbatim>\<open>uint8\<close>. The fields \<open>c0\<close>,
  \<open>c1\<close>, \<open>c2\<close> are the entries at index 0, 1 and 2 of the last axis. An image
  returned by \<^verbatim>\<open>cv2.imread\<close> stores its channels in the order blue, green, red,
  so there \<open>c0\<close> is blue and \<open>c2\<close> is red (the code relies on it when it converts
  with \<^verbatim>\<open>COLOR_BGR2GRAY\<close> and \<^verbatim>\<open>COLOR_BGR2HSV\<close>). In an HSV image \<open>c0\<close>, \<open>c1\<close>,
  \<open>c2\<close> are hue, saturation and value.
\<close>

record pixel =
  c0 :: "8 word"
  c1 :: "8 word"
  c2 :: "8 word"

type_synonym image = "pixel list list"
type_synonym gray = "8 word list list"

text \<open>\<^verbatim>\<open>image[:, :, k]\<close> for \<open>k = 0, 1, 2\<close>.\<close>

definition plane0 :: "image \<Rightarrow> gray" where
  "plane0 img = map (map c0) img"

definition plane1 :: "image \<Rightarrow> gray" where
  "plane1 img = map (map c1) img"

definition plane2 :: "image \<Rightarrow> gray" where
  "plane2 img = map (map c2) img"

text \<open>
  \<^verbatim>\<open>np.mean\<close> of a \<^verbatim>\<open>uint8\<close> array: the sum of the elements, read as unsigned numbers,
  over their count. On an empty array numpy returns \<^verbatim>\<open>nan\<close>, for which \<open>real\<close> has no
  value; the quotient below is 0 there.
\<close>

definition np_mean :: "gray \<Rightarrow> real" where
  "np_mean a = real (sum_list (map unat (concat a))) / real (length (concat a))"

text \<open>\<^verbatim>\<open>np.sum(a > 0)\<close>: the number of nonzero elements.\<close>

definition count_nonzero :: "gray \<Rightarrow> nat" where
  "count_nonzero a = length (filter (\<lambda>v. v \<noteq> 0) (concat a))"

text \<open>\<^verbatim>\<open>a.shape[1]\<close> of a two-dimensional array.\<close>

definition shape1 :: "'a list list \<Rightarrow> nat" where
  "shape1 a = (case a of [] \<Rightarrow> 0 | r # _ \<Rightarrow> length r)"

text \<open>\<^verbatim>\<open>cv2.flip(a, 1)\<close>: mirror around the vertical axis.\<close>

definition flip1 :: "gray \<Rightarrow> gray" where
  "flip1 a = map rev a"

text \<open>
  \<^verbatim>\<open>a - b\<close> on two \<^verbatim>\<open>uint8\<close> arrays with the same number of rows. The result is
  \<^verbatim>\<open>uint8\<close> again, so each difference wraps modulo 256. Rows of equal length are
  subtracted element by element; a row of length 1 is broadcast along the other;
  any other pair of lengths raises \<^verbatim>\<open>ValueError\<close>.
\<close>

definition subtract_row :: "8 word list \<Rightarrow> 8 word list \<Rightarrow> 8 word list raises" where
  "subtract_row r s =
     (if length r = length s then Inr (map2 (\<lambda>x y. x - y) r s)
      else if length r = 1 then Inr (map (\<lambda>y. hd r - y) s)
      else if length s = 1 then Inr (map (\<lambda>x. x - hd s) r)
      else Inl ''operands could not be broadcast together'')"

fun np_subtract :: "gray \<Rightarrow> gray \<Rightarrow> gray raises" where
  "np_subtract (r # rs) (s # ss) =
     bind_exn (subtract_row r s) (\<lambda>d. bind_exn (np_subtract rs ss) (\<lambda>ds. Inr (d # ds)))"
| "np_subtract _ _ = Inr []"

text \<open>\<^verbatim>\<open>np.abs\<close> on a \<^verbatim>\<open>uint8\<close> array returns its argument: the values are unsigned.\<close>

definition np_abs :: "gray \<Rightarrow> gray" where
  "np_abs a = a"

text \<open>
  \<^verbatim>\<open>cv2.inRange(img, lower, upper)\<close>: 255 where every channel lies between the
  bounds (inclusive), 0 elsewhere.
\<close>

definition inRange :: "image \<Rightarrow> nat \<times> nat \<times> nat \<Rightarrow> nat \<times> nat \<times> nat \<Rightarrow> gray" where
  "inRange img lower upper =
     (case (lower, upper) of ((l0, l1, l2), (u0, u1, u2)) \<Rightarrow>
        map (map (\<lambda>p. if l0 \<le> unat (c0 p) \<and> unat (c0 p) \<le> u0
                        \<and> l1 \<le> unat (c1 p) \<and> unat (c1 p) \<le> u1
                        \<and> l2 \<le> unat (c2 p) \<and> unat (c2 p) \<le> u2
                      then 255 else 0)) img)"

text \<open>
  \<^verbatim>\<open>np.histogram(values, bins=np.arange(0, n + 1))\<close>: \<open>n\<close> bins with the edges
  \<open>0, 1, \<dots>, n\<close>. Bin \<open>i\<close> counts the values in \<open>[i, i + 1)\<close>; the last bin is closed
  on the right. With explicit edges numpy ignores the \<^verbatim>\<open>range\<close> argument.
\<close>

definition in_bin :: "nat \<Rightarrow> nat \<Rightarrow> real \<Rightarrow> bool" where
  "in_bin n i x \<longleftrightarrow> real i \<le> x \<and> (x < real (i + 1) \<or> (i + 1 = n \<and> x = real n))"

definition np_histogram :: "real list \<Rightarrow> nat \<Rightarrow> nat list" where
  "np_histogram values n = map (\<lambda>i. length (filter (in_bin n i) values)) [0..<n]"

subsection \<open>External image-processing routines\<close>

type_synonym contour = "(int \<times> int) list"

datatype thresh_type = THRESH_BINARY | THRESH_BINARY_INV

text \<open>
  The routines of OpenCV (\<^verbatim>\<open>cv2\<close>) and scikit-image (\<^verbatim>\<open>skimage\<close>) that the
  extractors call. Each may raise.
\<close>

record cvlib =
  imread :: "string \<Rightarrow> image option"
  resize :: "image \<Rightarrow> nat \<times> nat \<Rightarrow> image raises"
  cvtColor_BGR2GRAY :: "image \<Rightarrow> gray raises"
  cvtColor_BGR2HSV :: "image \<Rightarrow> image raises"
  graycomatrix :: "gray \<Rightarrow> real list list raises"
  graycoprops :: "real list list \<Rightarrow> string \<Rightarrow> real raises"
  threshold :: "gray \<Rightarrow> real \<Rightarrow> nat \<Rightarrow> thresh_type \<Rightarrow> gray raises"
  findContours :: "gray \<Rightarrow> contour list raises"
  contourArea :: "contour \<Rightarrow> real raises"
  shannon_entropy :: "gray \<Rightarrow> real raises"
  local_binary_pattern :: "gray \<Rightarrow> nat \<Rightarrow> nat \<Rightarrow> real list list raises"
  threshold_otsu :: "gray \<Rightarrow> real raises"
  Canny :: "gray \<Rightarrow> nat \<Rightarrow> nat \<Rightarrow> gray raises"

text \<open>\<^verbatim>\<open>[f(c) for c in cs]\<close> where \<open>f\<close> may raise: the first exception ends the loop.\<close>

fun map_raises :: "('a \<Rightarrow> 'b raises) \<Rightarrow> 'a list \<Rightarrow> 'b list raises" where
  "map_raises f [] = Inr []"
| "map_raises f (x # xs) =
     bind_exn (f x) (\<lambda>y. bind_exn (map_raises f xs) (\<lambda>ys. Inr (y # ys)))"

text \<open>Python's \<^verbatim>\<open>max\<close> of a nonempty list.\<close>

fun py_max :: "real \<Rightarrow> real list \<Rightarrow> real" where
  "py_max m [] = m"
| "py_max m (x # xs) = py_max (if m < x then x else m) xs"

subsection \<open>Health feature extraction\<close>

text \<open>
  \<^verbatim>\<open>extract_health_features\<close> (lines 84-119). The \<^verbatim>\<open>except\<close> clause prints and
  re-raises, so an exception of a step is the exception of the function.
\<close>

definition extract_health_features :: "cvlib \<Rightarrow> image \<Rightarrow> real list raises" where
  "extract_health_features cv image0 =
     bind_exn (resize cv image0 (256, 256)) (\<lambda>image.
     bind_exn (cvtColor_BGR2GRAY cv image) (\<lambda>gray.
     bind_exn (graycomatrix cv gray) (\<lambda>glcm.
     bind_exn (graycoprops cv glcm ''contrast'') (\<lambda>contrast.
     bind_exn (graycoprops cv glcm ''dissimilarity'') (\<lambda>dissimilarity.
     bind_exn (graycoprops cv glcm ''homogeneity'') (\<lambda>homogeneity.
     bind_exn (graycoprops cv glcm ''energy'') (\<lambda>energy.
     bind_exn (graycoprops cv glcm ''correlation'') (\<lambda>correlation.
     let r_mean = np_mean (plane0 image);
         g_mean = np_mean (plane1 image);
         b_mean = np_mean (plane2 image)
     in
     bind_exn (threshold cv gray 1 255 THRESH_BINARY) (\<lambda>thresh.
     bind_exn (findContours cv thresh) (\<lambda>contours.
     bind_exn (map_raises (contourArea cv) contours) (\<lambda>areas.
     let area = (case areas of [] \<Rightarrow> 0 | a # as \<Rightarrow> py_max a as)
     in Inr [contrast, dissimilarity, homogeneity, energy, correlation,
             r_mean, g_mean, b_mean, area])))))))))))"

subsection \<open>Disease feature extraction\<close>

text \<open>Python's \<^verbatim>\<open>str\<close> of a non-negative integer, as used by \<^verbatim>\<open>f'lbp_{i}'\<close>.\<close>

definition digit_char :: "nat \<Rightarrow> char" where
  "digit_char d = ''0123456789'' ! d"

fun str_nat :: "nat \<Rightarrow> string" where
  "str_nat n = (if n < 10 then [digit_char n] else str_nat (n div 10) @ [digit_char (n mod 10)])"

declare str_nat.simps [simp del]

text \<open>
  The feature dictionary, in insertion order. \<^verbatim>\<open>features[k] = v\<close> is
  \<open>AList.update k v features\<close>: it replaces the value of a key that is present and
  appends a new key.
\<close>

type_synonym features = "(string \<times> real) list"

text \<open>
  Lines 154-158: the histogram of the LBP codes over \<^verbatim>\<open>LBP_POINTS + 2\<close> bins,
  converted to floats and divided by its sum plus \<^verbatim>\<open>1e-6\<close>.
\<close>

definition lbp_histogram :: "real list list \<Rightarrow> nat \<Rightarrow> real list" where
  "lbp_histogram lbp points =
     (let hist = map real (np_histogram (concat lbp) (points + 2))
      in map (\<lambda>h. h / (sum_list hist + 1 / 10 ^ 6)) hist)"

text \<open>Lines 159-160: \<^verbatim>\<open>for i in range(len(hist)): features[f'lbp_{i}'] = hist[i]\<close>.\<close>

definition set_lbp_features :: "real list \<Rightarrow> features \<Rightarrow> features" where
  "set_lbp_features hist fs =
     fold (\<lambda>i f. AList.update (''lbp_'' @ str_nat i) (hist ! i) f) [0..<length hist] fs"

text \<open>
  Lines 174-176: the left half of the grayscale image, the mirrored right half,
  and one minus the mean of \<^verbatim>\<open>np.abs(left - right)\<close> over 255. Both halves are
  \<^verbatim>\<open>uint8\<close> arrays, so the difference is taken modulo 256 before \<^verbatim>\<open>np.abs\<close>.
\<close>

definition symmetry_score :: "gray \<Rightarrow> real raises" where
  "symmetry_score gray =
     (let left = map (take (shape1 gray div 2)) gray;
          right = flip1 (map (drop (shape1 gray div 2)) gray)
      in bind_exn (np_subtract left right) (\<lambda>d. Inr (1 - np_mean (np_abs d) / 255)))"

text \<open>\<^verbatim>\<open>extract_disease_features\<close> (lines 121-182).\<close>

definition extract_disease_features :: "cvlib \<Rightarrow> image \<Rightarrow> features raises" where
  "extract_disease_features cv image0 =
     (let LBP_RADIUS = 3; LBP_POINTS = 8 * LBP_RADIUS in
     bind_exn (resize cv image0 (640, 640)) (\<lambda>img_resized.
     bind_exn (cvtColor_BGR2HSV cv img_resized) (\<lambda>hsv.
     bind_exn (cvtColor_BGR2GRAY cv img_resized) (\<lambda>gray.
     let f1 = AList.update ''mean_r'' (np_mean (plane2 img_resized)) [];
         f2 = AList.update ''mean_g'' (np_mean (plane1 img_resized)) f1;
         f3 = AList.update ''mean_b'' (np_mean (plane0 img_resized)) f2;
         f4 = AList.update ''mean_h'' (np_mean (plane0 hsv)) f3;
         f5 = AList.update ''mean_s'' (np_mean (plane1 hsv)) f4;
         f6 = AList.update ''mean_v'' (np_mean (plane2 hsv)) f5;
         yellow_mask = inRange hsv (20, 100, 100) (35, 255, 255);
         yellow_area = count_nonzero yellow_mask;
         f7 = AList.update ''yellow_area_percent'' (real yellow_area / (640 * 640)) f6
     in
     bind_exn (shannon_entropy cv gray) (\<lambda>entropy.
     let f8 = AList.update ''entropy'' entropy f7 in
     bind_exn (local_binary_pattern cv gray LBP_POINTS LBP_RADIUS) (\<lambda>lbp.
     let hist = lbp_histogram lbp LBP_POINTS;
         f9 = set_lbp_features hist f8
     in
     bind_exn (threshold_otsu cv gray) (\<lambda>otsu.
     bind_exn (threshold cv gray otsu 255 THRESH_BINARY_INV) (\<lambda>binary.
     bind_exn (findContours cv binary) (\<lambda>contours.
     bind_exn (map_raises (contourArea cv) contours) (\<lambda>areas.
     let spot_count = length (filter (\<lambda>a. a > 50) areas);
         f10 = AList.update ''spot_count'' (real spot_count) f9
     in
     bind_exn (Canny cv gray 50 150) (\<lambda>edges.
     let edge_density = real (count_nonzero edges) / (640 * 640);
         f11 = AList.update ''edge_density'' edge_density f10
     in
     bind_exn (symmetry_score gray) (\<lambda>score.
     Inr (AList.update ''symmetry_score'' score f11)))))))))))))"

subsection \<open>Disease metadata\<close>

datatype severity = none | moderate | severe

record disease_entry =
  name :: string
  description :: string
  compounds_affected :: string
  properties_lost :: string
  properties_retained :: string
  usability :: string
  medicinal_uses :: "string list"
  color :: string
  severity :: severity

text \<open>The en dash of the source's strings, in UTF-8.\<close>

definition en_dash :: string where
  "en_dash = [CHR 0xE2, CHR 0x80, CHR 0x93]"

definition healthy_basil :: disease_entry where
  "healthy_basil = \<lparr>
     name = ''Healthy Basil'',
     description = ''No symptoms of infection or damage. All key bioactives are retained in full capacity.'',
     compounds_affected = ''None'',
     properties_lost = ''None'',
     properties_retained = ''All retained'',
     usability = ''Yes '' @ en_dash @ '' Fully usable for all purposes'',
     medicinal_uses = [''Herbal teas'', ''Ayurveda and Unani medicine'', ''Culinary use'',
                       ''Cosmetic and essential oil extraction''],
     color = ''#4CAF50'',
     severity = none \<rparr>"

definition downy_mildew :: disease_entry where
  "downy_mildew = \<lparr>
     name = ''Downy Mildew'',
     description = ''Causes interveinal chlorosis, leading to yellowing of tissue and fungal spore development.'',
     compounds_affected = ''Flavonoids, carotenoids'',
     properties_lost = ''Antioxidant, anti-inflammatory'',
     properties_retained = ''Aroma compounds (mild stages)'',
     usability = ''Yes, for topical use / aroma (early only)'',
     medicinal_uses = [''Mild aroma-based preparations'', ''Herbal infusions (non-ingestible)'',
                       ''Air purifiers''],
     color = ''#FF9800'',
     severity = moderate \<rparr>"

definition fusarium_wilt :: disease_entry where
  "fusarium_wilt = \<lparr>
     name = ''Fusarium Wilt'',
     description = ''Fungal invasion through roots blocks xylem vessels, disrupting nutrient flow.'',
     compounds_affected = ''Eugenol, linalool, methyl chavicol'',
     properties_lost = ''Antibacterial, antifungal, digestive'',
     properties_retained = ''Almost none'',
     usability = ''No '' @ en_dash @ '' Unfit for any medicinal use'',
     medicinal_uses = [''Compost or biowaste (if completely dried and sterilized)''],
     color = ''#F44336'',
     severity = severe \<rparr>"

definition gray_mold :: disease_entry where
  "gray_mold = \<lparr>
     name = ''Gray Mold'',
     description = ''Leads to soft rot and fuzzy gray fungal growth on the surface.'',
     compounds_affected = ''Polyphenols, phenolic acids, tannins'',
     properties_lost = ''Antioxidant, anti-aging, hepatoprotective'',
     properties_retained = ''Faint smell (early stage only)'',
     usability = ''Slight topical use only (early); discard later'',
     medicinal_uses = [''Topical balms (very early stage)'', ''Incense (non-ingestion)''],
     color = ''#9C27B0'',
     severity = severe \<rparr>"

definition septoria_leaf_spot :: disease_entry where
  "septoria_leaf_spot = \<lparr>
     name = ''Septoria Leaf Spot'',
     description = ''Develops brown to black necrotic spots surrounded by yellow halos.'',
     compounds_affected = ''Chlorophyll, vitamin C, polyphenols'',
     properties_lost = ''Immunity, rejuvenation, detoxification'',
     properties_retained = ''Minor essential oils in unaffected areas'',
     usability = ''Limited non-oral use (early stage only)'',
     medicinal_uses = [''Aromatherapy (localized spots only)'', ''Topical use (if <20% affected)''],
     color = ''#795548'',
     severity = moderate \<rparr>"

definition DISEASE_INFO :: "(string \<times> disease_entry) list" where
  "DISEASE_INFO =
     [(''healthy_basil'', healthy_basil),
      (''downy_mildew'', downy_mildew),
      (''fusarium_wilt'', fusarium_wilt),
      (''gray_mold'', gray_mold),
      (''septoria_leaf_spot'', septoria_leaf_spot)]"

text \<open>\<^verbatim>\<open>str.lower\<close>, on ASCII letters.\<close>

definition lower_char :: "char \<Rightarrow> char" where
  "lower_char c =
     (if 65 \<le> (of_char c :: nat) \<and> (of_char c :: nat) \<le> 90
      then char_of ((of_char c :: nat) + 32) else c)"

definition lower :: "string \<Rightarrow> string" where
  "lower s = map lower_char s"

text \<open>
  \<^verbatim>\<open>get_disease_info\<close>:
  \<^verbatim>\<open>DISEASE_INFO.get(disease_name.lower(), DISEASE_INFO.get("healthy_basil"))\<close>.
  The inner \<^verbatim>\<open>get\<close> finds its key, so the default is the healthy record.
\<close>

definition get_disease_info :: "string \<Rightarrow> disease_entry" where
  "get_disease_info disease_name =
     (case map_of DISEASE_INFO (lower disease_name) of
        Some info \<Rightarrow> info
      | None \<Rightarrow> healthy_basil)"

subsection \<open>Model registry\<close>

text \<open>
  A trained scikit-learn classifier: \<open>predict_fn x\<close> is \<^verbatim>\<open>model.predict([x])[0]\<close>;
  \<open>predict_proba_fn\<close> is \<open>None\<close> when the object has no attribute
  \<^verbatim>\<open>predict_proba\<close>, and otherwise \<^verbatim>\<open>model.predict_proba([x])[0]\<close>;
  \<open>feature_names_in\<close> is \<open>None\<close> when the object has no attribute
  \<^verbatim>\<open>feature_names_in_\<close>.
\<close>

record classifier =
  predict_fn :: "real list \<Rightarrow> int raises"
  predict_proba_fn :: "(real list \<Rightarrow> real list raises) option"
  feature_names_in :: "string list option"

text \<open>A label encoder: \<open>inverse_transform e i\<close> is \<^verbatim>\<open>e.inverse_transform([i])[0]\<close>.\<close>

record encoder =
  inverse_transform :: "int \<Rightarrow> string raises"

text \<open>
  The two dictionaries of \<^verbatim>\<open>BasilDiseasePredictor\<close>, in insertion order. A value is
  an object (\<open>Some\<close>) or Python's \<^verbatim>\<open>None\<close>.
\<close>

record predictor =
  models :: "(string \<times> classifier option) list"
  label_encoders :: "(string \<times> encoder option) list"

text \<open>\<^verbatim>\<open>k in d\<close> and \<^verbatim>\<open>d.get(k)\<close> for such a dictionary.\<close>

definition has_key :: "(string \<times> 'a) list \<Rightarrow> string \<Rightarrow> bool" where
  "has_key d k \<longleftrightarrow> map_of d k \<noteq> None"

definition dict_get :: "(string \<times> 'a option) list \<Rightarrow> string \<Rightarrow> 'a option" where
  "dict_get d k = (case map_of d k of None \<Rightarrow> None | Some v \<Rightarrow> v)"

text \<open>
  The model directory: for a path, the file is missing (\<^verbatim>\<open>os.path.exists\<close> is
  false), or \<^verbatim>\<open>joblib.load\<close> returns an object, or \<^verbatim>\<open>joblib.load\<close> raises.
\<close>

datatype 'a artifact = Missing | Loads 'a | Corrupt exn

record directory =
  classifier_file :: "string \<Rightarrow> classifier artifact"
  encoder_file :: "string \<Rightarrow> encoder artifact"

text \<open>\<^verbatim>\<open>os.path.join(d, f)\<close> for a relative file name \<open>f\<close>.\<close>

definition path_join :: "string \<Rightarrow> string \<Rightarrow> string" where
  "path_join d f = (if d = [] \<or> last d = CHR ''/'' then d @ f else d @ ''/'' @ f)"

text \<open>
  The steps of \<^verbatim>\<open>load_models\<close> (lines 20-82), in the order of the source. Each
  step returns the updated predictor, or raises when \<^verbatim>\<open>joblib.load\<close> does; the
  assignment to the dictionary happens after the load.
\<close>

definition load_rf_health :: "directory \<Rightarrow> string \<Rightarrow> predictor \<Rightarrow> predictor raises" where
  "load_rf_health fs model_path p =
     (case classifier_file fs (path_join model_path ''healthy_vs_diseased_model.pkl'') of
        Missing \<Rightarrow> Inr p
      | Corrupt e \<Rightarrow> Inl e
      | Loads m \<Rightarrow> Inr (p\<lparr>models := AList.update ''random_forest_health'' (Some m) (models p)\<rparr>))"

definition load_rf_disease :: "directory \<Rightarrow> string \<Rightarrow> predictor \<Rightarrow> predictor raises" where
  "load_rf_disease fs model_path p =
     (case classifier_file fs (path_join model_path ''disease_classifier_model.pkl'') of
        Missing \<Rightarrow> Inr p
      | Corrupt e \<Rightarrow> Inl e
      | Loads m \<Rightarrow> Inr (p\<lparr>models := AList.update ''random_forest_disease'' (Some m) (models p)\<rparr>))"

definition load_rf_encoder :: "directory \<Rightarrow> string \<Rightarrow> predictor \<Rightarrow> predictor raises" where
  "load_rf_encoder fs model_path p =
     (case encoder_file fs (path_join model_path ''disease_label_encoder.pkl'') of
        Missing \<Rightarrow> Inr p
      | Corrupt e \<Rightarrow> Inl e
      | Loads enc \<Rightarrow>
          Inr (p\<lparr>label_encoders := AList.update ''random_forest'' (Some enc) (label_encoders p)\<rparr>))"

definition load_svm_health :: "directory \<Rightarrow> string \<Rightarrow> predictor \<Rightarrow> predictor raises" where
  "load_svm_health fs model_path p =
     (case classifier_file fs (path_join model_path ''healthy_vs_diseased_svm_model.pkl'') of
        Missing \<Rightarrow> Inr p
      | Corrupt e \<Rightarrow> Inl e
      | Loads m \<Rightarrow> Inr (p\<lparr>models := AList.update ''svm_health'' (Some m) (models p)\<rparr>))"

text \<open>Lines 48-51: the SVM disease model, and the random-forest encoder under \<^verbatim>\<open>'svm'\<close>.\<close>

definition load_svm_disease :: "directory \<Rightarrow> string \<Rightarrow> predictor \<Rightarrow> predictor raises" where
  "load_svm_disease fs model_path p =
     (case classifier_file fs (path_join model_path ''svm_disease_classifier_model.pkl'') of
        Missing \<Rightarrow> Inr p
      | Corrupt e \<Rightarrow> Inl e
      | Loads m \<Rightarrow>
          Inr (p\<lparr>models := AList.update ''svm_disease'' (Some m) (models p),
                 label_encoders :=
                   AList.update ''svm'' (dict_get (label_encoders p) ''random_forest'')
                     (label_encoders p)\<rparr>))"

definition load_knn_health :: "directory \<Rightarrow> string \<Rightarrow> predictor \<Rightarrow> predictor raises" where
  "load_knn_health fs model_path p =
     (case classifier_file fs (path_join model_path ''healthy_vs_diseased_knn_model.pkl'') of
        Missing \<Rightarrow> Inr p
      | Corrupt e \<Rightarrow> Inl e
      | Loads m \<Rightarrow> Inr (p\<lparr>models := AList.update ''knn_health'' (Some m) (models p)\<rparr>))"

text \<open>
  Lines 62-68: the KNN disease model, or, when its file is missing and the file of
  the KNN health model exists, \<^verbatim>\<open>self.models.get('random_forest_disease')\<close>.
\<close>

definition load_knn_disease :: "directory \<Rightarrow> string \<Rightarrow> predictor \<Rightarrow> predictor raises" where
  "load_knn_disease fs model_path p =
     (case classifier_file fs (path_join model_path ''knn_disease_classifier_model.pkl'') of
        Loads m \<Rightarrow> Inr (p\<lparr>models := AList.update ''knn_disease'' (Some m) (models p)\<rparr>)
      | Corrupt e \<Rightarrow> Inl e
      | Missing \<Rightarrow>
          (if classifier_file fs (path_join model_path ''healthy_vs_diseased_knn_model.pkl'') \<noteq> Missing
           then Inr (p\<lparr>models :=
                          AList.update ''knn_disease'' (dict_get (models p) ''random_forest_disease'')
                            (models p)\<rparr>)
           else Inr p))"

text \<open>
  Lines 70-76: the KNN encoder, or, when its file is missing and \<^verbatim>\<open>'knn_health'\<close>
  is a key of the models, \<^verbatim>\<open>self.label_encoders.get('random_forest')\<close>.
\<close>

definition load_knn_encoder :: "directory \<Rightarrow> string \<Rightarrow> predictor \<Rightarrow> predictor raises" where
  "load_knn_encoder fs model_path p =
     (case encoder_file fs (path_join model_path ''knn_disease_label_encoder.pkl'') of
        Loads enc \<Rightarrow> Inr (p\<lparr>label_encoders := AList.update ''knn'' (Some enc) (label_encoders p)\<rparr>)
      | Corrupt e \<Rightarrow> Inl e
      | Missing \<Rightarrow>
          (if has_key (models p) ''knn_health''
           then Inr (p\<lparr>label_encoders :=
                          AList.update ''knn'' (dict_get (label_encoders p) ''random_forest'')
                            (label_encoders p)\<rparr>)
           else Inr p))"

text \<open>
  The body of \<^verbatim>\<open>load_models\<close> is one \<^verbatim>\<open>try\<close> block whose handler only prints:
  the first exception ends the loading and the dictionaries keep what was stored
  before it.
\<close>

fun run_steps :: "(predictor \<Rightarrow> predictor raises) list \<Rightarrow> predictor \<Rightarrow> predictor" where
  "run_steps [] p = p"
| "run_steps (step # steps) p = (case step p of Inl e \<Rightarrow> p | Inr p' \<Rightarrow> run_steps steps p')"

definition load_models :: "directory \<Rightarrow> string \<Rightarrow> predictor" where
  "load_models fs model_path =
     run_steps
       [load_rf_health fs model_path, load_rf_disease fs model_path,
        load_rf_encoder fs model_path, load_svm_health fs model_path,
        load_svm_disease fs model_path, load_knn_health fs model_path,
        load_knn_disease fs model_path, load_knn_encoder fs model_path]
       \<lparr>models = [], label_encoders = []\<rparr>"

subsection \<open>Prediction\<close>

text \<open>
  The dictionary returned by \<^verbatim>\<open>predict\<close>. A field is \<open>None\<close> when the dictionary
  has no such key: a failure has no \<^verbatim>\<open>confidence\<close> and no \<^verbatim>\<open>disease_info\<close>, a
  success has no \<^verbatim>\<open>message\<close>.
\<close>

record result =
  success :: bool
  prediction :: string
  confidence :: "real option"
  disease_info :: "disease_entry option"
  processing_time :: real
  message :: "string option"

text \<open>
  The failure dictionary of lines 193-198, 211-216, 253-258, 307-312, 331-336,
  341-346 and 367-372; \<open>dt\<close> is \<^verbatim>\<open>time.time() - start_time\<close>.
\<close>

definition failure :: "string \<Rightarrow> real \<Rightarrow> result" where
  "failure msg dt =
     \<lparr>success = False, prediction = ''Error'', confidence = None, disease_info = None,
      processing_time = dt, message = Some msg\<rparr>"

text \<open>
  The calls that a mock of the extractors and of the classifiers would record, in
  the order they are made.
\<close>

datatype call =
  Extract_Health
  | Extract_Disease
  | Health_Predict "real list"
  | Disease_Predict "real list"

text \<open>Text of Python values inside messages.\<close>

definition quote :: string where
  "quote = [CHR 0x27]"

definition attribute_error :: "string \<Rightarrow> exn" where
  "attribute_error a = quote @ ''NoneType'' @ quote @ '' object has no attribute '' @ quote @ a @ quote"

definition str_int :: "int \<Rightarrow> string" where
  "str_int i = (if i < 0 then ''-'' @ str_nat (nat (- i)) else str_nat (nat i))"

definition index_error :: "int \<Rightarrow> nat \<Rightarrow> exn" where
  "index_error i n =
     ''index '' @ str_int i @ '' is out of bounds for axis 0 with size '' @ str_nat n"

fun join :: "string \<Rightarrow> string list \<Rightarrow> string" where
  "join sep [] = []"
| "join sep [x] = x"
| "join sep (x # y # ys) = x @ sep @ join sep (y # ys)"

text \<open>
  \<^verbatim>\<open>str(list(d.keys()))\<close> for keys without quotes, backslashes or control
  characters, as all keys stored by \<^verbatim>\<open>load_models\<close> are.
\<close>

definition str_keys :: "string list \<Rightarrow> string" where
  "str_keys ks = ''['' @ join '', '' (map (\<lambda>k. quote @ k @ quote) ks) @ '']''"

text \<open>\<^verbatim>\<open>a[i]\<close> on a one-dimensional array: a negative index counts from the end.\<close>

definition py_index :: "'a list \<Rightarrow> int \<Rightarrow> 'a option" where
  "py_index a i =
     (if 0 \<le> i \<and> i < int (length a) then Some (a ! nat i)
      else if i < 0 \<and> - int (length a) \<le> i then Some (a ! nat (int (length a) + i))
      else None)"

text \<open>
  Lines 223-230 and 294-303: the default confidence, replaced by
  \<^verbatim>\<open>predict_proba(x)[0][prediction]\<close> when the model has \<^verbatim>\<open>predict_proba\<close> and
  neither the call nor the indexing raises (the bare \<^verbatim>\<open>except\<close> swallows both).
\<close>

definition try_predict_proba :: "real \<Rightarrow> classifier \<Rightarrow> real list \<Rightarrow> int \<Rightarrow> real" where
  "try_predict_proba default_confidence m x pred =
     (case predict_proba_fn m of
        None \<Rightarrow> default_confidence
      | Some proba \<Rightarrow>
          (case proba x of
             Inl e \<Rightarrow> default_confidence
           | Inr probs \<Rightarrow>
               (case py_index probs pred of
                  None \<Rightarrow> default_confidence
                | Some c \<Rightarrow> c)))"

text \<open>\<^verbatim>\<open>disease_features.get(name, 0)\<close>.\<close>

definition get0 :: "features \<Rightarrow> string \<Rightarrow> real" where
  "get0 fs k = (case map_of fs k of None \<Rightarrow> 0 | Some v \<Rightarrow> v)"

text \<open>
  Lines 270-273 and 316-318: the dictionary comprehension over the model's feature
  names (a repeated name keeps its first position), made a one-row data frame; the
  row holds the values in the order of the keys.
\<close>

definition features_dict :: "string list \<Rightarrow> features \<Rightarrow> features" where
  "features_dict df_columns fs =
     fold (\<lambda>col d. AList.update col (get0 fs col) d) df_columns []"

definition features_row :: "string list \<Rightarrow> features \<Rightarrow> real list" where
  "features_row df_columns fs = map snd (features_dict df_columns fs)"

text \<open>Lines 280-287: the list in the order of \<^verbatim>\<open>expected_features\<close>.\<close>

definition expected_features :: "string list" where
  "expected_features =
     [''mean_r'', ''mean_g'', ''mean_b'', ''mean_h'', ''mean_s'', ''mean_v'',
      ''yellow_area_percent'', ''entropy'']
     @ map (\<lambda>i. ''lbp_'' @ str_nat i) [0..<26]
     @ [''spot_count'', ''edge_density'', ''symmetry_score'']"

definition features_list :: "features \<Rightarrow> real list" where
  "features_list fs = map (get0 fs) expected_features"

text \<open>
  A block of \<^verbatim>\<open>predict\<close> raises, returns from \<^verbatim>\<open>predict\<close>, or falls through with
  a value.
\<close>

datatype 'a flow = Raised exn | Returned result | Value 'a

text \<open>
  Lines 248-261: the model under \<^verbatim>\<open>{model_type}_disease\<close>, else the one under
  \<^verbatim>\<open>random_forest_disease\<close>; \<open>None\<close> when neither key is present.
\<close>

definition select_disease_model :: "predictor \<Rightarrow> string \<Rightarrow> classifier option option" where
  "select_disease_model p model_type =
     (if has_key (models p) (model_type @ ''_disease'')
      then map_of (models p) (model_type @ ''_disease'')
      else map_of (models p) ''random_forest_disease'')"

text \<open>
  Lines 268-303, the body of the \<^verbatim>\<open>try\<close> of the KNN branch. On \<^verbatim>\<open>None\<close> the
  attribute test is false and \<^verbatim>\<open>disease_model.predict\<close> raises.
\<close>

definition knn_try :: "classifier option \<Rightarrow> features \<Rightarrow> (int \<times> real) raises \<times> call list" where
  "knn_try disease_model fs =
     (case disease_model of
        None \<Rightarrow> (Inl (attribute_error ''predict''), [])
      | Some m \<Rightarrow>
          (let x = (case feature_names_in m of
                      Some df_columns \<Rightarrow> features_row df_columns fs
                    | None \<Rightarrow> features_list fs)
           in case predict_fn m x of
                Inl e \<Rightarrow> (Inl e, [Disease_Predict x])
              | Inr disease_prediction \<Rightarrow>
                  (Inr (disease_prediction, try_predict_proba (75 / 100) m x disease_prediction),
                   [Disease_Predict x])))"

text \<open>Lines 265-312: the KNN branch with its handler.\<close>

definition knn_branch :: "classifier option \<Rightarrow> features \<Rightarrow> real \<Rightarrow> (int \<times> real) flow \<times> call list" where
  "knn_branch disease_model fs dt =
     (case knn_try disease_model fs of
        (Inl e, calls) \<Rightarrow> (Returned (failure (''KNN disease prediction error: '' @ e) dt), calls)
      | (Inr v, calls) \<Rightarrow> (Value v, calls))"

text \<open>Lines 313-336: the branch of the other backends.\<close>

definition standard_branch :: "classifier option \<Rightarrow> features \<Rightarrow> real \<Rightarrow> (int \<times> real) flow \<times> call list" where
  "standard_branch disease_model fs dt =
     (case disease_model of
        None \<Rightarrow> (Returned (failure ''Model feature names not available'' dt), [])
      | Some m \<Rightarrow>
          (case feature_names_in m of
             None \<Rightarrow> (Returned (failure ''Model feature names not available'' dt), [])
           | Some df_columns \<Rightarrow>
               (let x = features_row df_columns fs
                in case predict_fn m x of
                     Inl e \<Rightarrow> (Raised e, [Disease_Predict x])
                   | Inr disease_prediction \<Rightarrow>
                       (case predict_proba_fn m of
                          None \<Rightarrow> (Value (disease_prediction, 75 / 100), [Disease_Predict x])
                        | Some proba \<Rightarrow>
                            (case proba x of
                               Inl e \<Rightarrow> (Raised e, [Disease_Predict x])
                             | Inr disease_probs \<Rightarrow>
                                 (case py_index disease_probs disease_prediction of
                                    None \<Rightarrow>
                                      (Raised (index_error disease_prediction (length disease_probs)),
                                       [Disease_Predict x])
                                  | Some c \<Rightarrow>
                                      (Value (disease_prediction, c), [Disease_Predict x])))))))"

text \<open>Lines 339-349: the encoder and the decoded disease name.\<close>

definition resolve_label :: "predictor \<Rightarrow> string \<Rightarrow> int \<Rightarrow> real \<Rightarrow> string flow" where
  "resolve_label p model_type disease_prediction dt =
     (let encoder_key =
            (if has_key (label_encoders p) model_type then model_type else ''random_forest'')
      in case map_of (label_encoders p) encoder_key of
           None \<Rightarrow> Returned (failure ''Label encoder not available'' dt)
         | Some None \<Rightarrow> Raised (attribute_error ''inverse_transform'')
         | Some (Some enc) \<Rightarrow>
             (case inverse_transform enc disease_prediction of
                Inl e \<Rightarrow> Raised e
              | Inr disease_name \<Rightarrow> Value disease_name))"

text \<open>Lines 264-336: the choice between the two branches.\<close>

definition predict_disease ::
  "predictor \<Rightarrow> string \<Rightarrow> classifier option \<Rightarrow> features \<Rightarrow> real
     \<Rightarrow> (int \<times> real) flow \<times> call list" where
  "predict_disease p model_type disease_model fs dt =
     (if model_type = ''knn'' \<and> has_key (models p) ''knn_disease''
      then knn_branch disease_model fs dt
      else standard_branch disease_model fs dt)"

text \<open>Lines 243-361: the diseased branch, inside the outer \<^verbatim>\<open>try\<close>.\<close>

definition diseased_branch ::
  "cvlib \<Rightarrow> predictor \<Rightarrow> image \<Rightarrow> string \<Rightarrow> real \<Rightarrow> result raises \<times> call list" where
  "diseased_branch cv p img model_type dt =
     (case extract_disease_features cv img of
        Inl e \<Rightarrow> (Inl e, [Extract_Disease])
      | Inr disease_features \<Rightarrow>
          (case select_disease_model p model_type of
             None \<Rightarrow>
               (Inr (failure ''No disease classification model available'' dt), [Extract_Disease])
           | Some disease_model \<Rightarrow>
               (case predict_disease p model_type disease_model disease_features dt of
                  (Raised e, calls) \<Rightarrow> (Inl e, Extract_Disease # calls)
                | (Returned r, calls) \<Rightarrow> (Inr r, Extract_Disease # calls)
                | (Value (disease_prediction, conf), calls) \<Rightarrow>
                    (case resolve_label p model_type disease_prediction dt of
                       Raised e \<Rightarrow> (Inl e, Extract_Disease # calls)
                     | Returned r \<Rightarrow> (Inr r, Extract_Disease # calls)
                     | Value disease_name \<Rightarrow>
                         (let info = get_disease_info disease_name
                          in (Inr \<lparr>success = True,
                                   prediction = ''Diseased Plant - '' @ name info,
                                   confidence = Some conf,
                                   disease_info = Some info,
                                   processing_time = dt,
                                   message = None\<rparr>,
                              Extract_Disease # calls))))))"

text \<open>
  Lines 189-361: the body of the outer \<^verbatim>\<open>try\<close>. A \<^verbatim>\<open>None\<close> stored under the health
  key makes \<^verbatim>\<open>health_model.predict\<close> raise.
\<close>

definition predict_try ::
  "cvlib \<Rightarrow> predictor \<Rightarrow> string \<Rightarrow> string \<Rightarrow> real \<Rightarrow> result raises \<times> call list" where
  "predict_try cv p image_path model_type dt =
     (case imread cv image_path of
        None \<Rightarrow> (Inr (failure ''Could not load image'' dt), [])
      | Some img \<Rightarrow>
          (case extract_health_features cv img of
             Inl e \<Rightarrow> (Inl e, [Extract_Health])
           | Inr health_features \<Rightarrow>
               (case map_of (models p) (model_type @ ''_health'') of
                  None \<Rightarrow>
                    (Inr (failure (''Model '' @ model_type @ '' not available. Available models: ''
                                   @ str_keys (map fst (models p))) dt),
                     [Extract_Health])
                | Some None \<Rightarrow> (Inl (attribute_error ''predict''), [Extract_Health])
                | Some (Some health_model) \<Rightarrow>
                    (case predict_fn health_model health_features of
                       Inl e \<Rightarrow> (Inl e, [Extract_Health, Health_Predict health_features])
                     | Inr health_prediction \<Rightarrow>
                         (let health_confidence =
                                try_predict_proba (95 / 100) health_model health_features
                                  health_prediction
                          in if health_prediction = 0
                             then (Inr \<lparr>success = True,
                                        prediction = ''Healthy Plant'',
                                        confidence = Some health_confidence,
                                        disease_info = Some (get_disease_info ''healthy_basil''),
                                        processing_time = dt,
                                        message = None\<rparr>,
                                   [Extract_Health, Health_Predict health_features])
                             else (case diseased_branch cv p img model_type dt of
                                     (r, calls) \<Rightarrow>
                                       (r, [Extract_Health, Health_Predict health_features]
                                           @ calls)))))))"

text \<open>
  \<^verbatim>\<open>predict\<close> (lines 184-372). \<open>start_time\<close> is the reading of \<^verbatim>\<open>time.time()\<close> in
  the first statement, \<open>end_time\<close> the reading in the \<^verbatim>\<open>return\<close> statement that
  is executed. The handler of lines 363-372 turns an exception of the body into
  a failure.
\<close>

definition predict_run ::
  "cvlib \<Rightarrow> predictor \<Rightarrow> string \<Rightarrow> string \<Rightarrow> real \<Rightarrow> real \<Rightarrow> result \<times> call list" where
  "predict_run cv p image_path model_type start_time end_time =
     (case predict_try cv p image_path model_type (end_time - start_time) of
        (Inl e, calls) \<Rightarrow> (failure (''Prediction error: '' @ e) (end_time - start_time), calls)
      | (Inr r, calls) \<Rightarrow> (r, calls))"

definition predict :: "cvlib \<Rightarrow> predictor \<Rightarrow> string \<Rightarrow> string \<Rightarrow> real \<Rightarrow> real \<Rightarrow> result" where
  "predict cv p image_path model_type start_time end_time =
     fst (predict_run cv p image_path model_type start_time end_time)"

definition predict_calls ::
  "cvlib \<Rightarrow> predictor \<Rightarrow> string \<Rightarrow> string \<Rightarrow> real \<Rightarrow> real \<Rightarrow> call list" where
  "predict_calls cv p image_path model_type start_time end_time =
     snd (predict_run cv p image_path model_type start_time end_time)"

subsection \<open>The symmetry score of the specification\<close>

text \<open>
  The symmetry score as the specification words it: one minus the mean absolute
  pixel difference between the left half and the mirrored right half, over 255.
  The absolute difference is that of the pixel values as numbers.
\<close>

definition mean_abs_difference :: "gray \<Rightarrow> gray \<Rightarrow> real" where
  "mean_abs_difference a b =
     (\<Sum>(x, y)\<leftarrow>zip (concat a) (concat b). \<bar>real (unat x) - real (unat y)\<bar>)
       / real (length (concat a))"

definition symmetry_score_spec :: "gray \<Rightarrow> real" where
  "symmetry_score_spec gray =
     (let left = map (take (shape1 gray div 2)) gray;
          right = flip1 (map (drop (shape1 gray div 2)) gray)
      in 1 - mean_abs_difference left right / 255)"

subsection \<open>Properties assumed of the external parts\<close>

text \<open>
  What OpenCV and scikit-image guarantee about shapes and value ranges:
  \<^verbatim>\<open>cv2.resize\<close> returns an image of the requested size, the grayscale
  conversion keeps the shape, and \<^verbatim>\<open>local_binary_pattern\<close> with the uniform
  method keeps the shape and returns codes between 0 and \<open>points + 1\<close>.
\<close>

definition shapes_kept :: "cvlib \<Rightarrow> bool" where
  "shapes_kept cv \<longleftrightarrow>
     (\<forall>img w h out. resize cv img (w, h) = Inr out
        \<longrightarrow> length out = h \<and> (\<forall>row \<in> set out. length row = w))
     \<and> (\<forall>img g. cvtColor_BGR2GRAY cv img = Inr g \<longrightarrow> map length g = map length img)
     \<and> (\<forall>g points radius codes. local_binary_pattern cv g points radius = Inr codes
        \<longrightarrow> map length codes = map length g
            \<and> (\<forall>x \<in> set (concat codes). 0 \<le> x \<and> x \<le> real points + 1))"

text \<open>Every vector returned by \<^verbatim>\<open>predict_proba\<close> holds probabilities.\<close>

definition proba_in_unit :: "classifier \<Rightarrow> bool" where
  "proba_in_unit m \<longleftrightarrow>
     (\<forall>proba x probs. predict_proba_fn m = Some proba \<and> proba x = Inr probs
        \<longrightarrow> (\<forall>q \<in> set probs. 0 \<le> q \<and> q \<le> 1))"

subsection \<open>Test doubles\<close>

text \<open>
  Stand-ins for the external parts, used to run the definitions on concrete
  inputs: an image file \<^verbatim>\<open>leaf.jpg\<close> holding a uniformly green 256 by 256
  image, library routines that answer as OpenCV and scikit-image do on a
  uniformly coloured image, and classifiers and encoders with fixed answers.
\<close>

definition green :: pixel where
  "green = \<lparr>c0 = 0, c1 = 255, c2 = 0\<rparr>"

definition red :: pixel where
  "red = \<lparr>c0 = 0, c1 = 0, c2 = 255\<rparr>"

definition green_hsv :: pixel where
  "green_hsv = \<lparr>c0 = 60, c1 = 255, c2 = 255\<rparr>"

definition uniform :: "nat \<Rightarrow> nat \<Rightarrow> 'a \<Rightarrow> 'a list list" where
  "uniform h w v = replicate h (replicate w v)"

text \<open>OpenCV's fixed-point grayscale value of a blue-green-red pixel.\<close>

definition gray_of :: "pixel \<Rightarrow> 8 word" where
  "gray_of p =
     of_nat ((1868 * unat (c0 p) + 9617 * unat (c1 p) + 4899 * unat (c2 p) + 8192) div 16384)"

definition stub_graycoprops :: "real list list \<Rightarrow> string \<Rightarrow> real raises" where
  "stub_graycoprops glcm prop =
     (if prop = ''contrast'' \<or> prop = ''dissimilarity'' then Inr 0
      else if prop = ''homogeneity'' \<or> prop = ''energy'' \<or> prop = ''correlation'' then Inr 1
      else Inl (prop @ '' is an invalid property''))"

definition stub_threshold :: "gray \<Rightarrow> real \<Rightarrow> nat \<Rightarrow> thresh_type \<Rightarrow> gray raises" where
  "stub_threshold g t maxval ty =
     Inr (map (map (\<lambda>v. case ty of
                          THRESH_BINARY \<Rightarrow> if t < real (unat v) then of_nat maxval else 0
                        | THRESH_BINARY_INV \<Rightarrow> if t < real (unat v) then 0 else of_nat maxval)) g)"

definition stub_cv :: cvlib where
  "stub_cv = \<lparr>
     imread = (\<lambda>path. if path = ''leaf.jpg'' then Some (uniform 256 256 green) else None),
     resize = (\<lambda>img (w, h). case img of
                 (px # _) # _ \<Rightarrow> Inr (uniform h w px)
               | _ \<Rightarrow> Inl ''(-215:Assertion failed) !ssize.empty()''),
     cvtColor_BGR2GRAY = (\<lambda>img. Inr (map (map gray_of) img)),
     cvtColor_BGR2HSV = (\<lambda>img. Inr (map (map (\<lambda>px. green_hsv)) img)),
     graycomatrix = (\<lambda>g. Inr []),
     graycoprops = stub_graycoprops,
     threshold = stub_threshold,
     findContours = (\<lambda>g. Inr (if count_nonzero g = 0 then []
                               else [[(0, 0), (0, int (length g) - 1),
                                      (int (shape1 g) - 1, int (length g) - 1),
                                      (int (shape1 g) - 1, 0)]])),
     contourArea = (\<lambda>c. case c of
                      [_, (_, b), (a, _), _] \<Rightarrow> Inr (real_of_int (a * b))
                    | _ \<Rightarrow> Inr 0),
     shannon_entropy = (\<lambda>g. Inr 0),
     local_binary_pattern = (\<lambda>g points radius. Inr (map (map (\<lambda>v. real points)) g)),
     threshold_otsu = (\<lambda>g. case g of
                         (v # _) # _ \<Rightarrow> Inr (real (unat v))
                       | _ \<Rightarrow> Inl ''empty image''),
     Canny = (\<lambda>g lo hi. Inr (map (map (\<lambda>v. 0)) g)) \<rparr>"

text \<open>A routine set whose \<^verbatim>\<open>resize\<close> raises.\<close>

definition failing_cv :: cvlib where
  "failing_cv = stub_cv\<lparr>resize := (\<lambda>img size. Inl ''resize failed'')\<rparr>"

text \<open>The features of the green image under \<open>stub_cv\<close>.\<close>

definition stub_health_features :: "real list" where
  "stub_health_features = [0, 0, 1, 1, 1, 0, 255, 0, 65025]"

definition stub_features :: features where
  "stub_features =
     [(''mean_r'', 0), (''mean_g'', 255), (''mean_b'', 0), (''mean_h'', 60), (''mean_s'', 255),
      (''mean_v'', 255), (''yellow_area_percent'', 0), (''entropy'', 0)]
     @ map (\<lambda>i. (''lbp_'' @ str_nat i, if i = 24 then 409600000000 / 409600000001 else 0))
         [0..<26]
     @ [(''spot_count'', 1), (''edge_density'', 0), (''symmetry_score'', 1)]"

text \<open>A health model that always predicts \<open>k\<close>, with the probabilities \<open>probs\<close>.\<close>

definition stub_health :: "int \<Rightarrow> real list \<Rightarrow> classifier" where
  "stub_health k probs =
     \<lparr>predict_fn = (\<lambda>x. Inr k),
      predict_proba_fn = Some (\<lambda>x. Inr probs),
      feature_names_in = None\<rparr>"

text \<open>A health model without \<^verbatim>\<open>predict_proba\<close>.\<close>

definition stub_health_plain :: "int \<Rightarrow> classifier" where
  "stub_health_plain k =
     \<lparr>predict_fn = (\<lambda>x. Inr k), predict_proba_fn = None, feature_names_in = None\<rparr>"

text \<open>
  A disease model that always predicts class 2, with or without probabilities and
  feature names.
\<close>

definition stub_disease :: "bool \<Rightarrow> string list option \<Rightarrow> classifier" where
  "stub_disease with_proba names =
     \<lparr>predict_fn = (\<lambda>x. Inr 2),
      predict_proba_fn = (if with_proba then Some (\<lambda>x. Inr [1 / 10, 1 / 10, 8 / 10]) else None),
      feature_names_in = names\<rparr>"

definition stub_encoder :: encoder where
  "stub_encoder =
     \<lparr>inverse_transform =
        (\<lambda>i. if i = 2 then Inr ''fusarium_wilt'' else Inl ''y contains previously unseen labels'')\<rparr>"

text \<open>A predictor with the models and the encoder of one backend.\<close>

definition stub_predictor :: "string \<Rightarrow> classifier \<Rightarrow> classifier \<Rightarrow> predictor" where
  "stub_predictor backend health_model disease_model =
     \<lparr>models = [(backend @ ''_health'', Some health_model),
                (backend @ ''_disease'', Some disease_model)],
      label_encoders = [(backend, Some stub_encoder)]\<rparr>"

text \<open>
  Model directories: one that holds only the KNN health model, one that holds
  the two SVM models and no encoder.
\<close>

definition knn_only_dir :: directory where
  "knn_only_dir =
     \<lparr>classifier_file =
        (\<lambda>path. if path = ''./models/healthy_vs_diseased_knn_model.pkl''
                 then Loads (stub_health 1 [2 / 10, 8 / 10]) else Missing),
      encoder_file = (\<lambda>path. Missing)\<rparr>"

definition svm_only_dir :: directory where
  "svm_only_dir =
     \<lparr>classifier_file =
        (\<lambda>path. if path = ''./models/healthy_vs_diseased_svm_model.pkl''
                 then Loads (stub_health 1 [2 / 10, 8 / 10])
                 else if path = ''./models/svm_disease_classifier_model.pkl''
                 then Loads (stub_disease False (Some [''mean_g'', ''entropy'']))
                 else Missing),
      encoder_file = (\<lambda>path. Missing)\<rparr>"

text \<open>Predictors used in the examples below.\<close>

definition healthy_svm :: predictor where
  "healthy_svm = stub_predictor ''svm'' (stub_health 0 [99 / 100, 1 / 100]) (stub_disease True None)"

definition rf_named :: predictor where
  "rf_named =
     stub_predictor ''random_forest'' (stub_health 1 [2 / 10, 8 / 10])
       (stub_disease True (Some [''symmetry_score'', ''leaf_age'', ''mean_g'']))"

definition rf_plain :: predictor where
  "rf_plain =
     stub_predictor ''random_forest'' (stub_health 1 [2 / 10, 8 / 10]) (stub_disease True None)"

definition knn_named :: predictor where
  "knn_named =
     stub_predictor ''knn'' (stub_health 1 [2 / 10, 8 / 10])
       (stub_disease True (Some [''symmetry_score'', ''mean_g'']))"

definition knn_plain :: predictor where
  "knn_plain = stub_predictor ''knn'' (stub_health 1 [2 / 10, 8 / 10]) (stub_disease False None)"

definition plain_svm :: predictor where
  "plain_svm = stub_predictor ''svm'' (stub_health_plain 0) (stub_disease False None)"

text \<open>
  A 640 by 640 image: the left half black, the right half with the value 1 in
  every channel.
\<close>

definition half_dark :: image where
  "half_dark =
     replicate 640 (replicate 320 \<lparr>c0 = 0, c1 = 0, c2 = 0\<rparr>
                    @ replicate 320 \<lparr>c0 = 1, c1 = 1, c2 = 1\<rparr>)"

section \<open>Auxiliary facts\<close>

subsection \<open>Uniform arrays and the test doubles\<close>

lemma concat_uniform: "concat (uniform h w v) = replicate (h * w) v"
  unfolding uniform_def by (induction h) (simp_all add: replicate_add)

lemma sum_list_replicate_nat: "sum_list (replicate n (k::nat)) = n * k"
  by (induction n) simp_all

lemma np_mean_uniform: "0 < h \<Longrightarrow> 0 < w \<Longrightarrow> np_mean (uniform h w v) = real (unat v)"
  by (simp add: np_mean_def concat_uniform map_replicate_const sum_list_replicate_nat)

lemma map_uniform: "map (map f) (uniform h w v) = uniform h w (f v)"
  by (simp add: uniform_def)

lemma plane_uniform:
  "plane0 (uniform h w p) = uniform h w (c0 p)"
  "plane1 (uniform h w p) = uniform h w (c1 p)"
  "plane2 (uniform h w p) = uniform h w (c2 p)"
  by (simp_all add: plane0_def plane1_def plane2_def uniform_def)

lemma count_nonzero_uniform: "count_nonzero (uniform h w v) = (if v = 0 then 0 else h * w)"
  by (simp add: count_nonzero_def concat_uniform)

lemma length_uniform: "length (uniform h w v) = h"
  by (simp add: uniform_def)

lemma shape1_uniform: "0 < h \<Longrightarrow> shape1 (uniform h w v) = w"
  by (cases h) (simp_all add: shape1_def uniform_def)

lemma uniform_eq_Nil: "uniform h w v = [] \<longleftrightarrow> h = 0"
  by (simp add: uniform_def)

lemma uniform_Cons: "0 < h \<Longrightarrow> 0 < w \<Longrightarrow> \<exists>r rs. uniform h w v = (v # r) # rs"
  by (cases h; cases w) (simp_all add: uniform_def)

lemma stub_resize:
  "0 < h \<Longrightarrow> 0 < w \<Longrightarrow> resize stub_cv (uniform h w px) (a, b) = Inr (uniform b a px)"
  using uniform_Cons [of h w px] by (auto simp: stub_cv_def)

lemma stub_otsu:
  "0 < h \<Longrightarrow> 0 < w \<Longrightarrow> threshold_otsu stub_cv (uniform h w v) = Inr (real (unat v))"
  using uniform_Cons [of h w v] by (auto simp: stub_cv_def)

lemma stub_imread: "imread stub_cv ''leaf.jpg'' = Some (uniform 256 256 green)"
  by (simp add: stub_cv_def)

lemma stub_extract_health:
  "extract_health_features stub_cv (uniform 256 256 green) = Inr stub_health_features"
  by (simp add: extract_health_features_def stub_resize stub_health_features_def)
     (simp add: stub_cv_def bind_exn_def stub_graycoprops_def stub_threshold_def map_uniform
      plane_uniform np_mean_uniform length_uniform shape1_uniform count_nonzero_uniform
      green_def uniform_eq_Nil gray_of_def)

subsection \<open>The symmetry score on two uniform halves\<close>

lemma np_subtract_replicate:
  "subtract_row r s = Inr d \<Longrightarrow> np_subtract (replicate h r) (replicate h s) = Inr (replicate h d)"
  by (induction h) (simp_all add: bind_exn_def)

lemma subtract_row_replicate:
  "subtract_row (replicate w a) (replicate w b) = Inr (replicate w (a - b))"
  by (simp add: subtract_row_def zip_replicate map_replicate_const)

lemma shape1_halves:
  "0 < h \<Longrightarrow> shape1 (replicate h (replicate w a @ replicate w b)) div 2 = w"
  by (cases h) (simp_all add: shape1_def)

lemma symmetry_score_halves:
  assumes "0 < h" "0 < w"
  shows "symmetry_score (replicate h (replicate w a @ replicate w b))
         = Inr (1 - real (unat (a - b)) / 255)"
proof -
  have m: "np_mean (replicate h (replicate w (a - b))) = real (unat (a - b))"
    using np_mean_uniform [OF assms, of "a - b"] by (simp add: uniform_def)
  show ?thesis
    unfolding symmetry_score_def Let_def shape1_halves [OF assms(1)]
    by (simp add: flip1_def np_abs_def bind_exn_def m
        np_subtract_replicate [OF subtract_row_replicate])
qed

lemma symmetry_score_uniform: "symmetry_score (uniform 640 640 v) = Inr 1"
proof -
  have "uniform 640 640 v = replicate 640 (replicate 320 v @ replicate 320 v)"
    by (simp add: uniform_def flip: replicate_add)
  then show ?thesis by (simp add: symmetry_score_halves)
qed

lemma stub_lbp_histogram:
  "lbp_histogram (uniform 640 640 24) 24 =
     map (\<lambda>i. if i = 24 then 409600000000 / 409600000001 else 0) [0..<26]"
  by (simp add: lbp_histogram_def np_histogram_def concat_uniform in_bin_def
      upt_rec [of _ "numeral _"] upt_rec [of _ "Suc _"])

lemma stub_extract_disease:
  "extract_disease_features stub_cv (uniform 256 256 green) = Inr stub_features"
  by (simp add: extract_disease_features_def stub_resize stub_features_def)
     (simp add: stub_cv_def bind_exn_def stub_threshold_def map_uniform
      stub_otsu [simplified stub_cv_def, simplified]
      plane_uniform np_mean_uniform length_uniform shape1_uniform count_nonzero_uniform
      green_def green_hsv_def uniform_eq_Nil Let_def symmetry_score_uniform stub_lbp_histogram
      inRange_def set_lbp_features_def str_nat.simps digit_char_def gray_of_def
      upt_rec [of _ "numeral _"] upt_rec [of _ "Suc _"])

subsection \<open>Results of the branches\<close>

lemma failure_simps:
  "success (failure msg dt) = False"
  "prediction (failure msg dt) = ''Error''"
  "confidence (failure msg dt) = None"
  "disease_info (failure msg dt) = None"
  "processing_time (failure msg dt) = dt"
  "message (failure msg dt) = Some msg"
  by (simp_all add: failure_def)

lemma get_disease_info_healthy: "get_disease_info ''healthy_basil'' = healthy_basil"
  by (simp add: get_disease_info_def DISEASE_INFO_def lower_def lower_char_def)

lemma knn_branch_returned:
  "knn_branch dm fs dt = (Returned r, calls) \<Longrightarrow> \<exists>msg. msg \<noteq> [] \<and> r = failure msg dt"
  by (auto simp: knn_branch_def split: prod.splits sum.splits)

lemma standard_branch_returned:
  "standard_branch dm fs dt = (Returned r, calls) \<Longrightarrow> \<exists>msg. msg \<noteq> [] \<and> r = failure msg dt"
  by (auto simp: standard_branch_def Let_def split: option.splits sum.splits)

lemma predict_disease_returned:
  "predict_disease p mt dm fs dt = (Returned r, calls)
     \<Longrightarrow> \<exists>msg. msg \<noteq> [] \<and> r = failure msg dt"
  by (auto simp: predict_disease_def dest: knn_branch_returned standard_branch_returned
      split: if_splits)

lemma resolve_label_returned:
  "resolve_label p mt pred dt = Returned r \<Longrightarrow> \<exists>msg. msg \<noteq> [] \<and> r = failure msg dt"
  by (auto simp: resolve_label_def Let_def split: option.splits sum.splits)

lemma diseased_branch_result:
  assumes "diseased_branch cv p img mt dt = (Inr r, calls)"
  shows "(\<exists>msg. msg \<noteq> [] \<and> r = failure msg dt)
       \<or> (success r \<and> processing_time r = dt \<and> message r = None)"
  using assms
  by (auto simp: diseased_branch_def Let_def
      dest: predict_disease_returned resolve_label_returned
      split: sum.splits option.splits prod.splits flow.splits)

lemma predict_try_result:
  assumes "predict_try cv p path mt dt = (Inr r, calls)"
  shows "(\<exists>msg. msg \<noteq> [] \<and> r = failure msg dt)
       \<or> (success r \<and> processing_time r = dt \<and> message r = None)"
  using assms
  by (auto simp: predict_try_def Let_def dest: diseased_branch_result
      split: sum.splits option.splits prod.splits if_splits)

lemma predict_cases:
  "(\<exists>msg. msg \<noteq> [] \<and> predict cv p path mt t0 t1 = failure msg (t1 - t0))
   \<or> (success (predict cv p path mt t0 t1)
      \<and> processing_time (predict cv p path mt t0 t1) = t1 - t0)"
proof (cases "predict_try cv p path mt (t1 - t0)")
  case (Pair a calls)
  show ?thesis
  proof (cases a)
    case (Inl e)
    with Pair have "predict cv p path mt t0 t1 = failure (''Prediction error: '' @ e) (t1 - t0)"
      by (simp add: predict_def predict_run_def)
    then show ?thesis by auto
  next
    case (Inr r)
    with Pair have "predict cv p path mt t0 t1 = r"
      by (simp add: predict_def predict_run_def)
    with predict_try_result [of cv p path mt "t1 - t0" r calls] Pair Inr show ?thesis
      by auto
  qed
qed

subsection \<open>The text of the key list\<close>

lemma join_contains: "k \<in> set ks \<Longrightarrow> \<exists>u v. join sep ks = u @ k @ v"
proof (induction sep ks rule: join.induct)
  case (1 sep)
  then show ?case by simp
next
  case (2 sep x)
  then show ?case by (auto intro: exI [of _ "[]"])
next
  case (3 sep x y ys)
  show ?case
  proof (cases "k = x")
    case True
    then show ?thesis by (auto intro: exI [of _ "[]"])
  next
    case False
    with 3 obtain u v where "join sep (y # ys) = u @ k @ v" by auto
    then have "join sep (x # y # ys) = (x @ sep @ u) @ k @ v" by simp
    then show ?thesis by blast
  qed
qed

lemma str_keys_contains:
  assumes "k \<in> set ks"
  shows "\<exists>u v. str_keys ks = u @ quote @ k @ quote @ v"
proof -
  from assms have "quote @ k @ quote \<in> set (map (\<lambda>k. quote @ k @ quote) ks)" by auto
  from join_contains [OF this, of "'', ''"] obtain u v
    where "join '', '' (map (\<lambda>k. quote @ k @ quote) ks) = u @ (quote @ k @ quote) @ v" by blast
  then have "str_keys ks = (''['' @ u) @ quote @ k @ quote @ (v @ '']'')"
    by (simp add: str_keys_def)
  then show ?thesis by blast
qed

section \<open>Properties of the predictor\<close>

subsection \<open>A healthy leaf\<close>

text \<open>
  C1. When the image loads, its health features are extracted and the health
  model of the backend classifies them as class 0, \<open>predict\<close> returns a successful
  result whose prediction is \<open>Healthy Plant\<close> and whose disease information is
  the record stored under \<open>healthy_basil\<close>, and the disease feature extractor is
  not among the calls made.
\<close>

theorem healthy_result_without_disease_extraction:
  assumes "imread cv image_path = Some img"
    and "extract_health_features cv img = Inr health_features"
    and "map_of (models p) (model_type @ ''_health'') = Some (Some health_model)"
    and "predict_fn health_model health_features = Inr 0"
  shows "success (predict cv p image_path model_type t0 t1)
       \<and> prediction (predict cv p image_path model_type t0 t1) = ''Healthy Plant''
       \<and> disease_info (predict cv p image_path model_type t0 t1)
           = map_of DISEASE_INFO ''healthy_basil''
       \<and> Extract_Disease \<notin> set (predict_calls cv p image_path model_type t0 t1)"
  using assms
  by (simp add: predict_def predict_calls_def predict_run_def predict_try_def
      get_disease_info_healthy DISEASE_INFO_def)

theorem healthy_result_without_disease_extraction_witness:
  "imread stub_cv ''leaf.jpg'' = Some (uniform 256 256 green)
   \<and> extract_health_features stub_cv (uniform 256 256 green) = Inr stub_health_features
   \<and> map_of (models healthy_svm) (''svm'' @ ''_health'')
       = Some (Some (stub_health 0 [99 / 100, 1 / 100]))
   \<and> predict_fn (stub_health 0 [99 / 100, 1 / 100]) stub_health_features = Inr 0
   \<and> success (predict stub_cv healthy_svm ''leaf.jpg'' ''svm'' 0 1)
   \<and> prediction (predict stub_cv healthy_svm ''leaf.jpg'' ''svm'' 0 1) = ''Healthy Plant''
   \<and> disease_info (predict stub_cv healthy_svm ''leaf.jpg'' ''svm'' 0 1) = Some healthy_basil
   \<and> Extract_Disease \<notin> set (predict_calls stub_cv healthy_svm ''leaf.jpg'' ''svm'' 0 1)"
proof -
  have m: "map_of (models healthy_svm) (''svm'' @ ''_health'')
             = Some (Some (stub_health 0 [99 / 100, 1 / 100]))"
    by (simp add: healthy_svm_def stub_predictor_def)
  have c: "predict_fn (stub_health 0 [99 / 100, 1 / 100]) stub_health_features = Inr 0"
    by (simp add: stub_health_def)
  show ?thesis
    using healthy_result_without_disease_extraction [OF stub_imread stub_extract_health m c, of 0 1]
      stub_imread stub_extract_health m c
    by (simp add: DISEASE_INFO_def)
qed

subsection \<open>A missing health model\<close>

text \<open>
  C6, as amended. When the key of the backend's health model is not in the
  registry, \<open>predict\<close> returns a failure. When moreover the image loads and its
  health features are extracted, the message is \<open>Model \<close>, the backend,
  \<open> not available. Available models: \<close> and the list of the keys of the
  registry, in which every key occurs between quotes.
\<close>

theorem missing_health_model_fails:
  assumes "map_of (models p) (model_type @ ''_health'') = None"
  shows "\<not> success (predict cv p image_path model_type t0 t1)
       \<and> (\<forall>img health_features.
            imread cv image_path = Some img
            \<and> extract_health_features cv img = Inr health_features
            \<longrightarrow> message (predict cv p image_path model_type t0 t1)
                  = Some (''Model '' @ model_type @ '' not available. Available models: ''
                          @ str_keys (map fst (models p)))
              \<and> (\<forall>k \<in> set (map fst (models p)).
                    \<exists>u v. str_keys (map fst (models p)) = u @ quote @ k @ quote @ v))"
proof (intro conjI allI impI ballI)
  show "\<not> success (predict cv p image_path model_type t0 t1)"
    using assms
    by (simp add: predict_def predict_run_def predict_try_def failure_simps
        split: option.splits sum.splits)
next
  fix img health_features
  assume "imread cv image_path = Some img
          \<and> extract_health_features cv img = Inr health_features"
  with assms show "message (predict cv p image_path model_type t0 t1)
      = Some (''Model '' @ model_type @ '' not available. Available models: ''
              @ str_keys (map fst (models p)))"
    by (simp add: predict_def predict_run_def predict_try_def failure_simps)
next
  fix k
  assume "k \<in> set (map fst (models p))"
  then show "\<exists>u v. str_keys (map fst (models p)) = u @ quote @ k @ quote @ v"
    by (rule str_keys_contains)
qed

theorem missing_health_model_fails_witness:
  "map_of (models rf_named) (''svm'' @ ''_health'') = None
   \<and> imread stub_cv ''leaf.jpg'' = Some (uniform 256 256 green)
   \<and> extract_health_features stub_cv (uniform 256 256 green) = Inr stub_health_features
   \<and> \<not> success (predict stub_cv rf_named ''leaf.jpg'' ''svm'' 0 1)
   \<and> message (predict stub_cv rf_named ''leaf.jpg'' ''svm'' 0 1)
       = Some (''Model svm not available. Available models: [''
               @ quote @ ''random_forest_health'' @ quote @ '', ''
               @ quote @ ''random_forest_disease'' @ quote @ '']'')"
proof -
  have m: "map_of (models rf_named) (''svm'' @ ''_health'') = None"
    by (simp add: rf_named_def stub_predictor_def)
  show ?thesis
    using missing_health_model_fails [OF m, of stub_cv "''leaf.jpg''" 0 1]
      m stub_imread stub_extract_health
    by (simp add: rf_named_def stub_predictor_def str_keys_def)
qed

text \<open>
  The claim as first stated fails when the image does not load: the message is
  then \<open>Could not load image\<close> and lists no key.
\<close>

theorem missing_health_model_counterexample:
  "map_of (models rf_named) (''svm'' @ ''_health'') = None
   \<and> message (predict stub_cv rf_named ''missing.jpg'' ''svm'' 0 1) = Some ''Could not load image''
   \<and> message (predict stub_cv rf_named ''missing.jpg'' ''svm'' 0 1)
       \<noteq> Some (''Model '' @ ''svm'' @ '' not available. Available models: ''
               @ str_keys (map fst (models rf_named)))"
  by (simp add: rf_named_def stub_predictor_def predict_def predict_run_def predict_try_def
      stub_cv_def failure_simps)

subsection \<open>Feature vectors\<close>

lemma update_self_map:
  "AList.update x (g x) (map (\<lambda>k. (k, g k)) ks)
     = (if x \<in> set ks then map (\<lambda>k. (k, g k)) ks else map (\<lambda>k. (k, g k)) (ks @ [x]))"
  by (induction ks) auto

lemma features_dict_eq:
  "features_dict cols fs = map (\<lambda>k. (k, get0 fs k)) (rev (remdups (rev cols)))"
proof (induction cols rule: rev_induct)
  case Nil
  show ?case by (simp add: features_dict_def)
next
  case (snoc x xs)
  have "features_dict (xs @ [x]) fs = AList.update x (get0 fs x) (features_dict xs fs)"
    by (simp add: features_dict_def)
  also have "\<dots> = AList.update x (get0 fs x) (map (\<lambda>k. (k, get0 fs k)) (rev (remdups (rev xs))))"
    by (simp only: snoc.IH)
  also have "\<dots> = map (\<lambda>k. (k, get0 fs k)) (rev (remdups (rev (xs @ [x]))))"
    by (simp add: update_self_map)
  finally show ?case .
qed

lemma features_row_eq: "features_row cols fs = map (get0 fs) (rev (remdups (rev cols)))"
  by (simp add: features_row_def features_dict_eq comp_def)

lemma first_occurrences_distinct: "distinct cols \<Longrightarrow> rev (remdups (rev cols)) = cols"
  by (simp add: distinct_remdups_id)

lemma expected_features_eq:
  "expected_features =
     [''mean_r'', ''mean_g'', ''mean_b'', ''mean_h'', ''mean_s'', ''mean_v'',
      ''yellow_area_percent'', ''entropy'',
      ''lbp_0'', ''lbp_1'', ''lbp_2'', ''lbp_3'', ''lbp_4'', ''lbp_5'', ''lbp_6'', ''lbp_7'',
      ''lbp_8'', ''lbp_9'', ''lbp_10'', ''lbp_11'', ''lbp_12'', ''lbp_13'', ''lbp_14'',
      ''lbp_15'', ''lbp_16'', ''lbp_17'', ''lbp_18'', ''lbp_19'', ''lbp_20'', ''lbp_21'',
      ''lbp_22'', ''lbp_23'', ''lbp_24'', ''lbp_25'',
      ''spot_count'', ''edge_density'', ''symmetry_score'']"
  by (simp add: expected_features_def str_nat.simps digit_char_def
      upt_rec [of _ "numeral _"] upt_rec [of _ "Suc _"])

lemma predict_run_diseased:
  assumes "imread cv path = Some img"
    and "extract_health_features cv img = Inr hf"
    and "map_of (models p) (mt @ ''_health'') = Some (Some hm)"
    and "predict_fn hm hf = Inr k" and "k \<noteq> 0"
  shows "predict_run cv p path mt t0 t1 =
           (case diseased_branch cv p img mt (t1 - t0) of
              (Inl e, calls) \<Rightarrow>
                (failure (''Prediction error: '' @ e) (t1 - t0),
                 [Extract_Health, Health_Predict hf] @ calls)
            | (Inr r, calls) \<Rightarrow> (r, [Extract_Health, Health_Predict hf] @ calls))"
  using assms
  by (simp add: predict_run_def predict_try_def Let_def split: prod.splits sum.splits)

lemma predict_calls_diseased:
  assumes "imread cv path = Some img"
    and "extract_health_features cv img = Inr hf"
    and "map_of (models p) (mt @ ''_health'') = Some (Some hm)"
    and "predict_fn hm hf = Inr k" and "k \<noteq> 0"
  shows "predict_calls cv p path mt t0 t1 =
           [Extract_Health, Health_Predict hf] @ snd (diseased_branch cv p img mt (t1 - t0))"
  unfolding predict_calls_def predict_run_diseased [OF assms]
  by (simp split: prod.splits sum.splits)

lemma diseased_calls_knn:
  assumes "extract_disease_features cv img = Inr fs"
    and "map_of (models p) ''knn_disease'' = Some (Some dm)"
  shows "snd (diseased_branch cv p img ''knn'' dt) =
           [Extract_Disease,
            Disease_Predict (case feature_names_in dm of
                               Some cols \<Rightarrow> features_row cols fs
                             | None \<Rightarrow> features_list fs)]"
  using assms
  by (simp add: diseased_branch_def select_disease_model_def has_key_def predict_disease_def
      knn_branch_def knn_try_def Let_def
      split: prod.splits sum.splits flow.splits option.splits)

subsection \<open>The vector handed to the KNN disease classifier\<close>

text \<open>
  C2, as amended. In the diseased branch with the backend \<open>knn\<close> and a KNN
  disease classifier in the registry, the vector handed to the classifier
  follows the classifier's metadata: without embedded feature names it is built
  in the order of \<open>expected_features\<close> (the canonical order, see
  \<open>expected_features_eq\<close>); with embedded feature names it holds the values of
  those names, a missing one as 0 and a repeated one once, in the order of the
  artifact.
\<close>

theorem knn_vector_follows_metadata:
  assumes "imread cv image_path = Some img"
    and "extract_health_features cv img = Inr health_features"
    and "map_of (models p) (''knn'' @ ''_health'') = Some (Some health_model)"
    and "predict_fn health_model health_features = Inr k" and "k \<noteq> 0"
    and "extract_disease_features cv img = Inr fs"
    and "map_of (models p) ''knn_disease'' = Some (Some disease_model)"
  shows "(feature_names_in disease_model = None \<longrightarrow>
            predict_calls cv p image_path ''knn'' t0 t1 =
              [Extract_Health, Health_Predict health_features, Extract_Disease,
               Disease_Predict (map (get0 fs) expected_features)])
       \<and> (\<forall>cols. feature_names_in disease_model = Some cols \<longrightarrow>
            predict_calls cv p image_path ''knn'' t0 t1 =
              [Extract_Health, Health_Predict health_features, Extract_Disease,
               Disease_Predict (map (get0 fs) (rev (remdups (rev cols))))]
            \<and> (distinct cols \<longrightarrow> rev (remdups (rev cols)) = cols))"
  unfolding predict_calls_diseased [OF assms(1-5)] diseased_calls_knn [OF assms(6,7)]
  by (simp add: features_row_eq features_list_def first_occurrences_distinct)

lemma stub_vector: "map (get0 stub_features) expected_features = map snd stub_features"
  by (simp add: expected_features_eq)
     (simp add: stub_features_def get0_def str_nat.simps digit_char_def
      upt_rec [of _ "numeral _"] upt_rec [of _ "Suc _"])

lemma stub_named_values:
  "get0 stub_features ''symmetry_score'' = 1"
  "get0 stub_features ''mean_g'' = 255"
  "get0 stub_features ''leaf_age'' = 0"
  by (simp_all add: stub_features_def get0_def str_nat.simps digit_char_def
      upt_rec [of _ "numeral _"] upt_rec [of _ "Suc _"])

lemma stub_predictor_lookup:
  "map_of (models (stub_predictor b hm dm)) (b @ ''_health'') = Some (Some hm)"
  "map_of (models (stub_predictor b hm dm)) (b @ ''_disease'') = Some (Some dm)"
  by (simp_all add: stub_predictor_def)

theorem knn_vector_follows_metadata_witness:
  "imread stub_cv ''leaf.jpg'' = Some (uniform 256 256 green)
   \<and> extract_health_features stub_cv (uniform 256 256 green) = Inr stub_health_features
   \<and> map_of (models knn_plain) (''knn'' @ ''_health'') = Some (Some (stub_health 1 [2 / 10, 8 / 10]))
   \<and> predict_fn (stub_health 1 [2 / 10, 8 / 10]) stub_health_features = Inr 1
   \<and> extract_disease_features stub_cv (uniform 256 256 green) = Inr stub_features
   \<and> map_of (models knn_plain) ''knn_disease'' = Some (Some (stub_disease False None))
   \<and> feature_names_in (stub_disease False None) = None
   \<and> predict_calls stub_cv knn_plain ''leaf.jpg'' ''knn'' 0 1 =
       [Extract_Health, Health_Predict stub_health_features, Extract_Disease,
        Disease_Predict (map snd stub_features)]
   \<and> map_of (models knn_named) ''knn_disease''
       = Some (Some (stub_disease True (Some [''symmetry_score'', ''mean_g''])))
   \<and> feature_names_in (stub_disease True (Some [''symmetry_score'', ''mean_g'']))
       = Some [''symmetry_score'', ''mean_g'']
   \<and> predict_calls stub_cv knn_named ''leaf.jpg'' ''knn'' 0 1 =
       [Extract_Health, Health_Predict stub_health_features, Extract_Disease,
        Disease_Predict [1, 255]]"
proof -
  have h: "predict_fn (stub_health 1 [2 / 10, 8 / 10]) stub_health_features = Inr 1"
    by (simp add: stub_health_def)
  have hp: "map_of (models knn_plain) (''knn'' @ ''_health'') = Some (Some (stub_health 1 [2 / 10, 8 / 10]))"
    unfolding knn_plain_def by (rule stub_predictor_lookup)
  have dp: "map_of (models knn_plain) ''knn_disease'' = Some (Some (stub_disease False None))"
    using stub_predictor_lookup(2) [of "''knn''"] by (simp add: knn_plain_def)
  have hn: "map_of (models knn_named) (''knn'' @ ''_health'') = Some (Some (stub_health 1 [2 / 10, 8 / 10]))"
    unfolding knn_named_def by (rule stub_predictor_lookup)
  have dn: "map_of (models knn_named) ''knn_disease''
       = Some (Some (stub_disease True (Some [''symmetry_score'', ''mean_g''])))"
    using stub_predictor_lookup(2) [of "''knn''"] by (simp add: knn_named_def)
  have one: "(1::int) \<noteq> 0" by simp
  show ?thesis
    using knn_vector_follows_metadata
        [OF stub_imread stub_extract_health hp h one stub_extract_disease dp, of 0 1]
      knn_vector_follows_metadata
        [OF stub_imread stub_extract_health hn h one stub_extract_disease dn, of 0 1]
      stub_imread stub_extract_health hp h stub_extract_disease dp dn
    by (simp add: stub_disease_def stub_vector stub_named_values)
qed

text \<open>
  The claim as first stated fails for a KNN classifier with the feature names
  \<open>symmetry_score\<close>, \<open>mean_g\<close>: it is handed those two values and not the 37
  values in canonical order.
\<close>

theorem knn_canonical_order_counterexample:
  "map_of (models knn_named) ''knn_disease''
     = Some (Some (stub_disease True (Some [''symmetry_score'', ''mean_g''])))
   \<and> predict_calls stub_cv knn_named ''leaf.jpg'' ''knn'' 0 1 =
       [Extract_Health, Health_Predict stub_health_features, Extract_Disease,
        Disease_Predict [1, 255]]
   \<and> map (get0 stub_features) expected_features \<noteq> [1, 255]"
proof -
  have h: "predict_fn (stub_health 1 [2 / 10, 8 / 10]) stub_health_features = Inr 1"
    by (simp add: stub_health_def)
  have hn: "map_of (models knn_named) (''knn'' @ ''_health'') = Some (Some (stub_health 1 [2 / 10, 8 / 10]))"
    unfolding knn_named_def by (rule stub_predictor_lookup)
  have dn: "map_of (models knn_named) ''knn_disease''
       = Some (Some (stub_disease True (Some [''symmetry_score'', ''mean_g''])))"
    using stub_predictor_lookup(2) [of "''knn''"] by (simp add: knn_named_def)
  have one: "(1::int) \<noteq> 0" by simp
  have len: "length (map (get0 stub_features) expected_features) = 37"
    by (simp add: expected_features_eq)
  have ne: "map (get0 stub_features) expected_features \<noteq> [1, 255]"
  proof
    assume "map (get0 stub_features) expected_features = [1, 255]"
    then have "length (map (get0 stub_features) expected_features) = length [1, 255 :: real]"
      by (rule arg_cong)
    with len show False by simp
  qed
  show ?thesis
    using dn ne
    unfolding predict_calls_diseased [OF stub_imread stub_extract_health hn h one]
      diseased_calls_knn [OF stub_extract_disease dn]
    by (simp add: stub_disease_def features_row_eq stub_named_values)
qed

lemma diseased_standard_named:
  assumes "extract_disease_features cv img = Inr fs"
    and "mt \<noteq> ''knn''"
    and "select_disease_model p mt = Some (Some dm)"
    and "feature_names_in dm = Some cols"
  shows "snd (diseased_branch cv p img mt dt) =
           [Extract_Disease, Disease_Predict (features_row cols fs)]"
  using assms
  by (simp add: diseased_branch_def predict_disease_def standard_branch_def Let_def
      split: prod.splits sum.splits flow.splits option.splits)

lemma diseased_standard_plain:
  assumes "extract_disease_features cv img = Inr fs"
    and "mt \<noteq> ''knn''"
    and "select_disease_model p mt = Some (Some dm)"
    and "feature_names_in dm = None"
  shows "diseased_branch cv p img mt dt =
           (Inr (failure ''Model feature names not available'' dt), [Extract_Disease])"
  using assms
  by (simp add: diseased_branch_def predict_disease_def standard_branch_def)

subsection \<open>The vector handed to the other disease classifiers\<close>

text \<open>
  C3, as amended. In the diseased branch with the backend \<open>random_forest\<close> or
  \<open>svm\<close>: when the disease classifier carries embedded feature names, it is
  handed the values of those names, a missing one as 0 and a repeated one once,
  in the order of the artifact; when it carries none, \<open>predict\<close> returns the
  failure \<open>Model feature names not available\<close> and the classifier is not
  called.
\<close>

theorem standard_vector_needs_metadata:
  assumes "model_type = ''random_forest'' \<or> model_type = ''svm''"
    and "imread cv image_path = Some img"
    and "extract_health_features cv img = Inr health_features"
    and "map_of (models p) (model_type @ ''_health'') = Some (Some health_model)"
    and "predict_fn health_model health_features = Inr k" and "k \<noteq> 0"
    and "extract_disease_features cv img = Inr fs"
    and "select_disease_model p model_type = Some (Some disease_model)"
  shows "(\<forall>cols. feature_names_in disease_model = Some cols \<longrightarrow>
            predict_calls cv p image_path model_type t0 t1 =
              [Extract_Health, Health_Predict health_features, Extract_Disease,
               Disease_Predict (map (get0 fs) (rev (remdups (rev cols))))]
            \<and> (distinct cols \<longrightarrow> rev (remdups (rev cols)) = cols))
       \<and> (feature_names_in disease_model = None \<longrightarrow>
            predict cv p image_path model_type t0 t1
              = failure ''Model feature names not available'' (t1 - t0)
            \<and> predict_calls cv p image_path model_type t0 t1 =
                [Extract_Health, Health_Predict health_features, Extract_Disease])"
proof -
  from assms(1) have nk: "model_type \<noteq> ''knn''" by auto
  show ?thesis
  proof (intro conjI allI impI)
    fix cols assume "feature_names_in disease_model = Some cols"
    from diseased_standard_named [OF assms(7) nk assms(8) this]
    show "predict_calls cv p image_path model_type t0 t1 =
              [Extract_Health, Health_Predict health_features, Extract_Disease,
               Disease_Predict (map (get0 fs) (rev (remdups (rev cols))))]"
      unfolding predict_calls_diseased [OF assms(2-6)] by (simp add: features_row_eq)
  next
    fix cols :: "string list" assume "distinct cols"
    then show "rev (remdups (rev cols)) = cols" by (rule first_occurrences_distinct)
  next
    assume n: "feature_names_in disease_model = None"
    show "predict cv p image_path model_type t0 t1
              = failure ''Model feature names not available'' (t1 - t0)"
      unfolding predict_def predict_run_diseased [OF assms(2-6)]
        diseased_standard_plain [OF assms(7) nk assms(8) n]
      by simp
    show "predict_calls cv p image_path model_type t0 t1 =
                [Extract_Health, Health_Predict health_features, Extract_Disease]"
      unfolding predict_calls_diseased [OF assms(2-6)]
        diseased_standard_plain [OF assms(7) nk assms(8) n]
      by simp
  qed
qed

lemma stub_select:
  "select_disease_model (stub_predictor b hm dm) b = Some (Some dm)"
  by (simp add: select_disease_model_def has_key_def stub_predictor_def)

theorem standard_vector_needs_metadata_witness:
  "(''random_forest'' = ''random_forest'' \<or> ''random_forest'' = ''svm'')
   \<and> imread stub_cv ''leaf.jpg'' = Some (uniform 256 256 green)
   \<and> extract_health_features stub_cv (uniform 256 256 green) = Inr stub_health_features
   \<and> map_of (models rf_named) (''random_forest'' @ ''_health'')
       = Some (Some (stub_health 1 [2 / 10, 8 / 10]))
   \<and> predict_fn (stub_health 1 [2 / 10, 8 / 10]) stub_health_features = Inr 1
   \<and> extract_disease_features stub_cv (uniform 256 256 green) = Inr stub_features
   \<and> select_disease_model rf_named ''random_forest''
       = Some (Some (stub_disease True (Some [''symmetry_score'', ''leaf_age'', ''mean_g''])))
   \<and> predict_calls stub_cv rf_named ''leaf.jpg'' ''random_forest'' 0 1 =
       [Extract_Health, Health_Predict stub_health_features, Extract_Disease,
        Disease_Predict [1, 0, 255]]
   \<and> select_disease_model rf_plain ''random_forest'' = Some (Some (stub_disease True None))
   \<and> predict stub_cv rf_plain ''leaf.jpg'' ''random_forest'' 0 1
       = failure ''Model feature names not available'' 1"
proof -
  have b: "''random_forest'' = ''random_forest'' \<or> ''random_forest'' = ''svm''" by simp
  have h: "predict_fn (stub_health 1 [2 / 10, 8 / 10]) stub_health_features = Inr 1"
    by (simp add: stub_health_def)
  have hn: "map_of (models rf_named) (''random_forest'' @ ''_health'')
       = Some (Some (stub_health 1 [2 / 10, 8 / 10]))"
    unfolding rf_named_def by (rule stub_predictor_lookup)
  have hp: "map_of (models rf_plain) (''random_forest'' @ ''_health'')
       = Some (Some (stub_health 1 [2 / 10, 8 / 10]))"
    unfolding rf_plain_def by (rule stub_predictor_lookup)
  have sn: "select_disease_model rf_named ''random_forest''
       = Some (Some (stub_disease True (Some [''symmetry_score'', ''leaf_age'', ''mean_g''])))"
    unfolding rf_named_def by (rule stub_select)
  have sp: "select_disease_model rf_plain ''random_forest'' = Some (Some (stub_disease True None))"
    unfolding rf_plain_def by (rule stub_select)
  have one: "(1::int) \<noteq> 0" by simp
  show ?thesis
    using standard_vector_needs_metadata
        [OF b stub_imread stub_extract_health hn h one stub_extract_disease sn, of 0 1]
      standard_vector_needs_metadata
        [OF b stub_imread stub_extract_health hp h one stub_extract_disease sp, of 0 1]
      stub_imread stub_extract_health hn h stub_extract_disease sn sp
    by (simp add: stub_disease_def stub_named_values)
qed

text \<open>
  The claim as first stated fails for a random-forest classifier without feature
  names: no vector in canonical order is built and the prediction does not
  proceed.
\<close>

theorem standard_canonical_fallback_counterexample:
  "select_disease_model rf_plain ''random_forest'' = Some (Some (stub_disease True None))
   \<and> feature_names_in (stub_disease True None) = None
   \<and> \<not> success (predict stub_cv rf_plain ''leaf.jpg'' ''random_forest'' 0 1)
   \<and> message (predict stub_cv rf_plain ''leaf.jpg'' ''random_forest'' 0 1)
       = Some ''Model feature names not available''
   \<and> predict_calls stub_cv rf_plain ''leaf.jpg'' ''random_forest'' 0 1
       = [Extract_Health, Health_Predict stub_health_features, Extract_Disease]"
proof -
  have h: "predict_fn (stub_health 1 [2 / 10, 8 / 10]) stub_health_features = Inr 1"
    by (simp add: stub_health_def)
  have hp: "map_of (models rf_plain) (''random_forest'' @ ''_health'')
       = Some (Some (stub_health 1 [2 / 10, 8 / 10]))"
    unfolding rf_plain_def by (rule stub_predictor_lookup)
  have sp: "select_disease_model rf_plain ''random_forest'' = Some (Some (stub_disease True None))"
    unfolding rf_plain_def by (rule stub_select)
  have one: "(1::int) \<noteq> 0" by simp
  have nk: "''random_forest'' \<noteq> ''knn''" by simp
  have n: "feature_names_in (stub_disease True None) = None" by (simp add: stub_disease_def)
  show ?thesis
    using sp n
    unfolding predict_def predict_calls_def
      predict_run_diseased [OF stub_imread stub_extract_health hp h one]
      diseased_standard_plain [OF stub_extract_disease nk sp n]
    by (simp add: failure_simps)
qed

subsection \<open>Confidence\<close>

lemma py_index_mem: "py_index a i = Some c \<Longrightarrow> c \<in> set a"
  by (auto simp: py_index_def split: if_splits)

lemma try_predict_proba_unit:
  assumes "proba_in_unit m" and "0 \<le> d" and "d \<le> 1"
  shows "0 \<le> try_predict_proba d m x pred \<and> try_predict_proba d m x pred \<le> 1"
  using assms
  by (auto simp: try_predict_proba_def proba_in_unit_def dest!: py_index_mem
      split: option.splits sum.splits)

lemma knn_branch_value_unit:
  assumes "knn_branch (Some m) fs dt = (Value (pred, c), calls)" and "proba_in_unit m"
  shows "0 \<le> c \<and> c \<le> 1"
proof -
  from assms(1) obtain x where "c = try_predict_proba (75 / 100) m x pred"
    by (auto simp: knn_branch_def knn_try_def Let_def split: sum.splits)
  with try_predict_proba_unit [OF assms(2), of "75 / 100" x pred] show ?thesis by simp
qed

lemma knn_branch_none: "knn_branch None fs dt \<noteq> (Value v, calls)"
  by (simp add: knn_branch_def knn_try_def)

lemma standard_branch_value_unit:
  assumes "standard_branch (Some m) fs dt = (Value (pred, c), calls)" and "proba_in_unit m"
  shows "0 \<le> c \<and> c \<le> 1"
  using assms
  by (auto simp: standard_branch_def Let_def proba_in_unit_def dest!: py_index_mem
      split: option.splits sum.splits)

lemma standard_branch_none: "standard_branch None fs dt \<noteq> (Value v, calls)"
  by (simp add: standard_branch_def)

lemma predict_disease_value_unit:
  assumes "predict_disease p mt dm fs dt = (Value (pred, c), calls)"
    and "\<forall>m. dm = Some m \<longrightarrow> proba_in_unit m"
  shows "0 \<le> c \<and> c \<le> 1"
proof (cases dm)
  case None
  with assms(1) show ?thesis
    by (auto simp: predict_disease_def knn_branch_none standard_branch_none split: if_splits)
next
  case (Some m)
  with assms show ?thesis
    by (auto simp: predict_disease_def split: if_splits
        dest: knn_branch_value_unit standard_branch_value_unit)
qed

lemma predict_disease_value_default:
  assumes "predict_disease p mt (Some m) fs dt = (Value (pred, c), calls)"
    and "predict_proba_fn m = None"
  shows "c = 75 / 100"
  using assms
  by (auto simp: predict_disease_def knn_branch_def knn_try_def standard_branch_def Let_def
      try_predict_proba_def split: if_splits option.splits sum.splits)

lemma select_disease_model_registered:
  "select_disease_model p mt = Some dm \<Longrightarrow> \<exists>k. map_of (models p) k = Some dm"
  by (auto simp: select_disease_model_def split: if_splits)

lemma diseased_branch_success:
  assumes "diseased_branch cv p img mt dt = (Inr r, calls)" and "success r"
  shows "\<exists>fs dm pred c calls' nm.
           select_disease_model p mt = Some dm
           \<and> predict_disease p mt dm fs dt = (Value (pred, c), calls')
           \<and> confidence r = Some c
           \<and> prediction r = ''Diseased Plant - '' @ nm"
proof (cases "extract_disease_features cv img")
  case (Inl e)
  with assms show ?thesis by (simp add: diseased_branch_def)
next
  case fs: (Inr fs)
  show ?thesis
  proof (cases "select_disease_model p mt")
    case None
    with assms fs show ?thesis by (auto simp: diseased_branch_def failure_simps)
  next
    case dm: (Some dm)
    obtain fl calls' where pd: "predict_disease p mt dm fs dt = (fl, calls')"
      by (cases "predict_disease p mt dm fs dt")
    show ?thesis
    proof (cases fl)
      case (Raised e)
      with assms fs dm pd show ?thesis by (simp add: diseased_branch_def)
    next
      case (Returned r')
      with assms fs dm pd predict_disease_returned [of p mt dm fs dt r' calls']
      show ?thesis by (auto simp: diseased_branch_def failure_simps)
    next
      case (Value v)
      obtain pred c where v: "v = (pred, c)" by (cases v)
      show ?thesis
      proof (cases "resolve_label p mt pred dt")
        case (Raised e)
        with assms fs dm pd Value v show ?thesis by (simp add: diseased_branch_def)
      next
        case (Returned r')
        with assms fs dm pd Value v resolve_label_returned [of p mt pred dt r']
        show ?thesis by (auto simp: diseased_branch_def failure_simps)
      next
        case nm: (Value nm)
        with assms fs dm pd Value v
        have "confidence r = Some c"
          and "prediction r = ''Diseased Plant - '' @ name (get_disease_info nm)"
          by (auto simp: diseased_branch_def Let_def)
        with dm pd Value v show ?thesis by blast
      qed
    qed
  qed
qed

lemma predict_success_cases:
  assumes "success (predict cv p path mt t0 t1)"
  shows "(\<exists>hm hf. map_of (models p) (mt @ ''_health'') = Some (Some hm)
            \<and> prediction (predict cv p path mt t0 t1) = ''Healthy Plant''
            \<and> confidence (predict cv p path mt t0 t1)
                = Some (try_predict_proba (95 / 100) hm hf 0))
       \<or> (\<exists>fs dm pred c calls' nm.
            select_disease_model p mt = Some dm
            \<and> predict_disease p mt dm fs (t1 - t0) = (Value (pred, c), calls')
            \<and> confidence (predict cv p path mt t0 t1) = Some c
            \<and> prediction (predict cv p path mt t0 t1) = ''Diseased Plant - '' @ nm)"
proof (cases "predict_try cv p path mt (t1 - t0)")
  case (Pair a calls)
  show ?thesis
  proof (cases a)
    case (Inl e)
    with Pair assms show ?thesis by (simp add: predict_def predict_run_def failure_simps)
  next
    case (Inr r)
    with Pair have r: "predict cv p path mt t0 t1 = r"
      by (simp add: predict_def predict_run_def)
    with assms have sr: "success r" by simp
    from Pair Inr sr show ?thesis
      unfolding r predict_try_def Let_def
      by (auto simp: failure_simps dest!: diseased_branch_success
          split: sum.splits option.splits prod.splits if_splits)
  qed
qed

text \<open>
  C7. Assume that every vector returned by \<^verbatim>\<open>predict_proba\<close> of a registered
  model holds numbers between 0 and 1. Then the confidence of every successful
  result lies between 0 and 1. A successful healthy result whose health model
  has no \<^verbatim>\<open>predict_proba\<close> has the confidence 0.95, and a successful diseased
  result whose disease model has no \<^verbatim>\<open>predict_proba\<close> has the confidence 0.75.
\<close>

theorem confidence_in_unit_interval:
  assumes "\<forall>k m. map_of (models p) k = Some (Some m) \<longrightarrow> proba_in_unit m"
  shows "(success (predict cv p image_path model_type t0 t1)
            \<longrightarrow> (\<exists>c. confidence (predict cv p image_path model_type t0 t1) = Some c
                      \<and> 0 \<le> c \<and> c \<le> 1))
       \<and> (\<forall>health_model.
            success (predict cv p image_path model_type t0 t1)
            \<and> prediction (predict cv p image_path model_type t0 t1) = ''Healthy Plant''
            \<and> map_of (models p) (model_type @ ''_health'') = Some (Some health_model)
            \<and> predict_proba_fn health_model = None
            \<longrightarrow> confidence (predict cv p image_path model_type t0 t1) = Some (95 / 100))
       \<and> (\<forall>disease_model.
            success (predict cv p image_path model_type t0 t1)
            \<and> prediction (predict cv p image_path model_type t0 t1) \<noteq> ''Healthy Plant''
            \<and> select_disease_model p model_type = Some (Some disease_model)
            \<and> predict_proba_fn disease_model = None
            \<longrightarrow> confidence (predict cv p image_path model_type t0 t1) = Some (75 / 100))"
proof (intro conjI allI impI)
  assume s: "success (predict cv p image_path model_type t0 t1)"
  from predict_success_cases [OF s]
  show "\<exists>c. confidence (predict cv p image_path model_type t0 t1) = Some c \<and> 0 \<le> c \<and> c \<le> 1"
  proof (elim disjE exE conjE)
    fix hm hf
    assume hm: "map_of (models p) (model_type @ ''_health'') = Some (Some hm)"
      and c: "confidence (predict cv p image_path model_type t0 t1)
                = Some (try_predict_proba (95 / 100) hm hf 0)"
    from hm assms have "proba_in_unit hm" by blast
    from try_predict_proba_unit [OF this, of "95 / 100" hf 0] c show ?thesis by simp
  next
    fix fs dm pred c calls' nm
    assume dm: "select_disease_model p model_type = Some dm"
      and pd: "predict_disease p model_type dm fs (t1 - t0) = (Value (pred, c), calls')"
      and c: "confidence (predict cv p image_path model_type t0 t1) = Some c"
    from select_disease_model_registered [OF dm] assms
    have "\<forall>m. dm = Some m \<longrightarrow> proba_in_unit m" by blast
    from predict_disease_value_unit [OF pd this] c show ?thesis by simp
  qed
next
  fix health_model
  assume a: "success (predict cv p image_path model_type t0 t1)
            \<and> prediction (predict cv p image_path model_type t0 t1) = ''Healthy Plant''
            \<and> map_of (models p) (model_type @ ''_health'') = Some (Some health_model)
            \<and> predict_proba_fn health_model = None"
  then have s: "success (predict cv p image_path model_type t0 t1)" by simp
  from predict_success_cases [OF s] a
  show "confidence (predict cv p image_path model_type t0 t1) = Some (95 / 100)"
    by (auto simp: try_predict_proba_def)
next
  fix disease_model
  assume a: "success (predict cv p image_path model_type t0 t1)
            \<and> prediction (predict cv p image_path model_type t0 t1) \<noteq> ''Healthy Plant''
            \<and> select_disease_model p model_type = Some (Some disease_model)
            \<and> predict_proba_fn disease_model = None"
  then have s: "success (predict cv p image_path model_type t0 t1)" by simp
  from predict_success_cases [OF s] a
  show "confidence (predict cv p image_path model_type t0 t1) = Some (75 / 100)"
    by (auto dest: predict_disease_value_default)
qed

lemma stub_registry_unit:
  assumes "proba_in_unit hm" and "proba_in_unit dm"
  shows "\<forall>k m. map_of (models (stub_predictor b hm dm)) k = Some (Some m) \<longrightarrow> proba_in_unit m"
  using assms by (simp add: stub_predictor_def)

lemma stub_proba_in_unit:
  "proba_in_unit (stub_health_plain k)"
  "proba_in_unit (stub_disease False names)"
  "proba_in_unit (stub_disease True names)"
  "proba_in_unit (stub_health 1 [2 / 10, 8 / 10])"
  "proba_in_unit (stub_health 0 [99 / 100, 1 / 100])"
  by (auto simp: proba_in_unit_def stub_health_plain_def stub_disease_def stub_health_def)

lemma stub_diseased_knn_plain:
  "diseased_branch stub_cv knn_plain (uniform 256 256 green) ''knn'' dt =
     (Inr \<lparr>success = True, prediction = ''Diseased Plant - Fusarium Wilt'',
            confidence = Some (75 / 100), disease_info = Some fusarium_wilt,
            processing_time = dt, message = None\<rparr>,
      [Extract_Disease, Disease_Predict (map snd stub_features)])"
  by (simp add: diseased_branch_def stub_extract_disease knn_plain_def stub_select
      predict_disease_def has_key_def stub_predictor_def knn_branch_def knn_try_def
      stub_disease_def features_list_def stub_vector try_predict_proba_def
      resolve_label_def stub_encoder_def get_disease_info_def DISEASE_INFO_def lower_def
      lower_char_def fusarium_wilt_def select_disease_model_def)

theorem confidence_in_unit_interval_witness:
  "success (predict stub_cv plain_svm ''leaf.jpg'' ''svm'' 0 1)
   \<and> prediction (predict stub_cv plain_svm ''leaf.jpg'' ''svm'' 0 1) = ''Healthy Plant''
   \<and> map_of (models plain_svm) (''svm'' @ ''_health'') = Some (Some (stub_health_plain 0))
   \<and> predict_proba_fn (stub_health_plain 0) = None
   \<and> confidence (predict stub_cv plain_svm ''leaf.jpg'' ''svm'' 0 1) = Some (95 / 100)
   \<and> success (predict stub_cv knn_plain ''leaf.jpg'' ''knn'' 0 1)
   \<and> prediction (predict stub_cv knn_plain ''leaf.jpg'' ''knn'' 0 1)
       = ''Diseased Plant - Fusarium Wilt''
   \<and> select_disease_model knn_plain ''knn'' = Some (Some (stub_disease False None))
   \<and> predict_proba_fn (stub_disease False None) = None
   \<and> confidence (predict stub_cv knn_plain ''leaf.jpg'' ''knn'' 0 1) = Some (75 / 100)"
proof -
  have r1: "\<forall>k m. map_of (models plain_svm) k = Some (Some m) \<longrightarrow> proba_in_unit m"
    unfolding plain_svm_def by (rule stub_registry_unit) (rule stub_proba_in_unit)+
  have r2: "\<forall>k m. map_of (models knn_plain) k = Some (Some m) \<longrightarrow> proba_in_unit m"
    unfolding knn_plain_def by (rule stub_registry_unit) (rule stub_proba_in_unit)+
  have m1: "map_of (models plain_svm) (''svm'' @ ''_health'') = Some (Some (stub_health_plain 0))"
    unfolding plain_svm_def by (rule stub_predictor_lookup)
  have n1: "predict_proba_fn (stub_health_plain 0) = None"
    by (simp add: stub_health_plain_def)
  have p1: "success (predict stub_cv plain_svm ''leaf.jpg'' ''svm'' 0 1)
            \<and> prediction (predict stub_cv plain_svm ''leaf.jpg'' ''svm'' 0 1) = ''Healthy Plant''"
    using m1
    by (simp add: predict_def predict_run_def predict_try_def stub_imread stub_extract_health
        stub_health_plain_def)
  have m2: "map_of (models knn_plain) (''knn'' @ ''_health'')
              = Some (Some (stub_health 1 [2 / 10, 8 / 10]))"
    unfolding knn_plain_def by (rule stub_predictor_lookup)
  have h: "predict_fn (stub_health 1 [2 / 10, 8 / 10]) stub_health_features = Inr 1"
    by (simp add: stub_health_def)
  have one: "(1::int) \<noteq> 0" by simp
  have s2: "select_disease_model knn_plain ''knn'' = Some (Some (stub_disease False None))"
    unfolding knn_plain_def by (rule stub_select)
  have n2: "predict_proba_fn (stub_disease False None) = None"
    by (simp add: stub_disease_def)
  have p2: "success (predict stub_cv knn_plain ''leaf.jpg'' ''knn'' 0 1)
            \<and> prediction (predict stub_cv knn_plain ''leaf.jpg'' ''knn'' 0 1)
                = ''Diseased Plant - Fusarium Wilt''"
    unfolding predict_def predict_run_diseased [OF stub_imread stub_extract_health m2 h one]
      stub_diseased_knn_plain
    by simp
  show ?thesis
    using confidence_in_unit_interval [OF r1, of stub_cv "''leaf.jpg''" "''svm''" 0 1]
      confidence_in_unit_interval [OF r2, of stub_cv "''leaf.jpg''" "''knn''" 0 1]
      m1 n1 p1 s2 n2 p2
    by simp
qed

subsection \<open>The disease feature dictionary\<close>

lemma bind_exn_Inr: "bind_exn m f = Inr y \<longleftrightarrow> (\<exists>x. m = Inr x \<and> f x = Inr y)"
  by (cases m) (simp_all add: bind_exn_def)

lemma extract_disease_features_assembled:
  assumes "extract_disease_features cv img = Inr fs"
  shows "\<exists>img_resized gray codes r g b h s v y e c d sc.
           resize cv img (640, 640) = Inr img_resized
         \<and> cvtColor_BGR2GRAY cv img_resized = Inr gray
         \<and> local_binary_pattern cv gray 24 3 = Inr codes
         \<and> fs = AList.update ''symmetry_score'' sc
                  (AList.update ''edge_density'' d
                    (AList.update ''spot_count'' c
                      (set_lbp_features (lbp_histogram codes 24)
                        (AList.update ''entropy'' e
                          (AList.update ''yellow_area_percent'' y
                            (AList.update ''mean_v'' v
                              (AList.update ''mean_s'' s
                                (AList.update ''mean_h'' h
                                  (AList.update ''mean_b'' b
                                    (AList.update ''mean_g'' g
                                      (AList.update ''mean_r'' r [])))))))))))"
  using assms
  unfolding extract_disease_features_def Let_def bind_exn_Inr
  by (elim exE conjE) (simp, blast)

lemma length_lbp_histogram: "length (lbp_histogram codes points) = points + 2"
  by (simp add: lbp_histogram_def np_histogram_def Let_def)

lemma assembled_features:
  assumes "length hist = 26"
  shows "AList.update ''symmetry_score'' sc
           (AList.update ''edge_density'' d
             (AList.update ''spot_count'' c
               (set_lbp_features hist
                 (AList.update ''entropy'' e
                   (AList.update ''yellow_area_percent'' y
                     (AList.update ''mean_v'' v
                       (AList.update ''mean_s'' s
                         (AList.update ''mean_h'' h
                           (AList.update ''mean_b'' b
                             (AList.update ''mean_g'' g
                               (AList.update ''mean_r'' r [])))))))))))
         = [(''mean_r'', r), (''mean_g'', g), (''mean_b'', b), (''mean_h'', h), (''mean_s'', s),
            (''mean_v'', v), (''yellow_area_percent'', y), (''entropy'', e)]
           @ map (\<lambda>i. (''lbp_'' @ str_nat i, hist ! i)) [0..<26]
           @ [(''spot_count'', c), (''edge_density'', d), (''symmetry_score'', sc)]"
  by (simp add: set_lbp_features_def assms str_nat.simps digit_char_def
      upt_rec [of _ "numeral _"] upt_rec [of _ "Suc _"])

lemma assembled_lbp_values:
  "map (\<lambda>i. get0
          ([(''mean_r'', r), (''mean_g'', g), (''mean_b'', b), (''mean_h'', h), (''mean_s'', s),
            (''mean_v'', v), (''yellow_area_percent'', y), (''entropy'', e)]
           @ map (\<lambda>i. (''lbp_'' @ str_nat i, hist ! i)) [0..<26]
           @ [(''spot_count'', c), (''edge_density'', d), (''symmetry_score'', sc)])
          (''lbp_'' @ str_nat i)) [0..<26]
   = map ((!) hist) [0..<26]"
  by (simp add: get0_def str_nat.simps digit_char_def
      upt_rec [of _ "numeral _"] upt_rec [of _ "Suc _"])

lemma sum_list_divide_const:
  "(\<Sum>h\<leftarrow>hs. h / c) = sum_list hs / (c :: real)"
  by (induction hs) (simp_all add: add_divide_distrib)

lemma sum_lbp_histogram:
  "sum_list (lbp_histogram codes points)
     = real (sum_list (np_histogram (concat codes) (points + 2)))
       / (real (sum_list (np_histogram (concat codes) (points + 2))) + 1 / 10 ^ 6)"
proof -
  have r: "sum_list (map real ns) = real (sum_list ns)" for ns :: "nat list"
    by (induction ns) simp_all
  show ?thesis
    unfolding lbp_histogram_def Let_def sum_list_divide_const r ..
qed

lemma in_some_bin:
  assumes "0 \<le> x" and "x \<le> real n" and "0 < n"
  shows "\<exists>i < n. in_bin n i x"
proof (cases "x = real n")
  case True
  with assms have "in_bin n (n - 1) x" by (simp add: in_bin_def)
  with assms show ?thesis by (intro exI [of _ "n - 1"]) simp
next
  case False
  with assms have lt: "x < real n" by simp
  let ?i = "nat \<lfloor>x\<rfloor>"
  from assms(1) have "real ?i \<le> x" and "x < real (?i + 1)" by linarith+
  moreover from lt assms(1) have "?i < n" by linarith
  ultimately show ?thesis by (auto simp: in_bin_def)
qed

lemma histogram_total_positive:
  assumes "x \<in> set values" and "0 \<le> x" and "x \<le> real n" and "0 < n"
  shows "1 \<le> sum_list (np_histogram values n)"
proof -
  from in_some_bin [OF assms(2-4)] obtain i where i: "i < n" "in_bin n i x" by blast
  with assms(1) have "x \<in> set (filter (in_bin n i) values)" by simp
  then have "1 \<le> length (filter (in_bin n i) values)"
    by (cases "filter (in_bin n i) values") auto
  moreover have "length (filter (in_bin n i) values) \<in> set (np_histogram values n)"
    using i(1) by (auto simp: np_histogram_def)
  ultimately show ?thesis
    using member_le_sum_list [of "length (filter (in_bin n i) values)" "np_histogram values n"]
    by linarith
qed

lemma near_one:
  assumes "1 \<le> (t :: real)"
  shows "\<bar>t / (t + 1 / 10 ^ 6) - 1\<bar> < 1 / 10 ^ 6"
proof -
  have pos: "0 < t + 1 / 10 ^ 6" using assms by simp
  have "t / (t + 1 / 10 ^ 6) - 1 = - (1 / 10 ^ 6) / (t + 1 / 10 ^ 6)"
    using pos by (simp add: field_simps)
  moreover have "(1 / 10 ^ 6) / (t + 1 / 10 ^ 6) < 1 / 10 ^ 6"
    using assms by (simp add: field_simps)
  moreover have "0 < (1 / 10 ^ 6) / (t + 1 / 10 ^ 6)"
    using pos by simp
  ultimately show ?thesis by simp
qed

lemma codes_nonempty:
  assumes "shapes_kept cv"
    and "resize cv img (640, 640) = Inr img_resized"
    and "cvtColor_BGR2GRAY cv img_resized = Inr gray"
    and "local_binary_pattern cv gray 24 3 = Inr codes"
  shows "\<exists>x \<in> set (concat codes). 0 \<le> x \<and> x \<le> 26"
proof -
  from assms(1,2) have r: "length img_resized = 640" "\<forall>row \<in> set img_resized. length row = 640"
    unfolding shapes_kept_def by blast+
  from assms(1,3) have g: "map length gray = map length img_resized"
    unfolding shapes_kept_def by blast
  from assms(1,4) have c: "map length codes = map length gray"
    and rng: "\<forall>x \<in> set (concat codes). 0 \<le> x \<and> x \<le> real (24::nat) + 1"
    unfolding shapes_kept_def by blast+
  from r obtain row rows where "img_resized = row # rows" "length row = 640"
    by (cases img_resized) auto
  with g c obtain crow crows where "codes = crow # crows" "length crow = 640"
    by (cases codes) auto
  then obtain x where "x \<in> set (concat codes)"
    by (cases crow) auto
  moreover from this rng have "0 \<le> x \<and> x \<le> 25" by auto
  ultimately show ?thesis by (intro bexI [of _ x]) simp_all
qed

text \<open>
  C8. Whenever disease feature extraction returns, with library routines that
  keep the shapes, the dictionary has exactly 37 entries with distinct names:
  the 8 colour and texture scalars, \<open>lbp_0\<close> to \<open>lbp_25\<close>, and \<open>spot_count\<close>,
  \<open>edge_density\<close>, \<open>symmetry_score\<close>; and the 26 LBP values sum to 1 within
  \<open>10\<^sup>-\<^sup>6\<close> (in real arithmetic).
\<close>

theorem disease_features_named_and_normalised:
  assumes "shapes_kept cv" and "extract_disease_features cv img = Inr fs"
  shows "map fst fs =
           [''mean_r'', ''mean_g'', ''mean_b'', ''mean_h'', ''mean_s'', ''mean_v'',
            ''yellow_area_percent'', ''entropy'']
           @ map (\<lambda>i. ''lbp_'' @ str_nat i) [0..<26]
           @ [''spot_count'', ''edge_density'', ''symmetry_score'']
       \<and> distinct (map fst fs)
       \<and> length fs = 37
       \<and> \<bar>(\<Sum>i\<leftarrow>[0..<26]. get0 fs (''lbp_'' @ str_nat i)) - 1\<bar> < 1 / 10 ^ 6"
proof -
  from extract_disease_features_assembled [OF assms(2)]
  obtain img_resized gray codes r g b h s v y e c d sc where
    rs: "resize cv img (640, 640) = Inr img_resized"
    and gr: "cvtColor_BGR2GRAY cv img_resized = Inr gray"
    and lb: "local_binary_pattern cv gray 24 3 = Inr codes"
    and fs: "fs = AList.update ''symmetry_score'' sc
                  (AList.update ''edge_density'' d
                    (AList.update ''spot_count'' c
                      (set_lbp_features (lbp_histogram codes 24)
                        (AList.update ''entropy'' e
                          (AList.update ''yellow_area_percent'' y
                            (AList.update ''mean_v'' v
                              (AList.update ''mean_s'' s
                                (AList.update ''mean_h'' h
                                  (AList.update ''mean_b'' b
                                    (AList.update ''mean_g'' g
                                      (AList.update ''mean_r'' r [])))))))))))"
    by blast
  let ?hist = "lbp_histogram codes 24"
  have len: "length ?hist = 26" by (simp add: length_lbp_histogram)
  have fs': "fs = [(''mean_r'', r), (''mean_g'', g), (''mean_b'', b), (''mean_h'', h),
                   (''mean_s'', s), (''mean_v'', v), (''yellow_area_percent'', y),
                   (''entropy'', e)]
                  @ map (\<lambda>i. (''lbp_'' @ str_nat i, ?hist ! i)) [0..<26]
                  @ [(''spot_count'', c), (''edge_density'', d), (''symmetry_score'', sc)]"
    unfolding fs by (rule assembled_features [OF len])
  have keys: "map fst fs =
           [''mean_r'', ''mean_g'', ''mean_b'', ''mean_h'', ''mean_s'', ''mean_v'',
            ''yellow_area_percent'', ''entropy'']
           @ map (\<lambda>i. ''lbp_'' @ str_nat i) [0..<26]
           @ [''spot_count'', ''edge_density'', ''symmetry_score'']"
    unfolding fs' by (simp add: comp_def)
  have dist: "distinct (map fst fs)"
    unfolding keys expected_features_def [symmetric] expected_features_eq by simp
  have n: "length fs = 37"
    unfolding fs' by simp
  have "map (\<lambda>i. get0 fs (''lbp_'' @ str_nat i)) [0..<26] = map ((!) ?hist) [0..<26]"
    unfolding fs' by (rule assembled_lbp_values)
  also have "\<dots> = ?hist"
    using map_nth [of ?hist] len by simp
  finally have vals: "map (\<lambda>i. get0 fs (''lbp_'' @ str_nat i)) [0..<26] = ?hist" .
  from codes_nonempty [OF assms(1) rs gr lb]
  obtain x where "x \<in> set (concat codes)" "0 \<le> x" "x \<le> 26" by blast
  then have "1 \<le> sum_list (np_histogram (concat codes) (24 + 2))"
    using histogram_total_positive [of x "concat codes" 26] by simp
  then have "1 \<le> real (sum_list (np_histogram (concat codes) (24 + 2)))"
    by linarith
  from near_one [OF this]
  have "\<bar>sum_list ?hist - 1\<bar> < 1 / 10 ^ 6"
    by (simp only: sum_lbp_histogram)
  with keys dist n vals show ?thesis by simp
qed

lemma stub_shapes_kept: "shapes_kept stub_cv"
  unfolding shapes_kept_def stub_cv_def
  by (auto simp: uniform_def comp_def split: list.splits)

theorem disease_features_named_and_normalised_witness:
  "extract_disease_features stub_cv (uniform 256 256 green) = Inr stub_features
   \<and> length stub_features = 37
   \<and> \<bar>(\<Sum>i\<leftarrow>[0..<26]. get0 stub_features (''lbp_'' @ str_nat i)) - 1\<bar> < 1 / 10 ^ 6"
  using disease_features_named_and_normalised [OF stub_shapes_kept stub_extract_disease]
    stub_extract_disease
  by simp

subsection \<open>The symmetry score\<close>

lemma mean_abs_difference_uniform:
  assumes "0 < h" and "0 < w"
  shows "mean_abs_difference (replicate h (replicate w a)) (replicate h (replicate w b))
         = \<bar>real (unat a) - real (unat b)\<bar>"
proof -
  have c: "concat (replicate h (replicate w x)) = replicate (h * w) x" for x :: "8 word"
    using concat_uniform [of h w x] by (simp add: uniform_def)
  show ?thesis
    using assms
    by (simp add: mean_abs_difference_def c zip_replicate map_replicate_const sum_list_replicate)
qed

lemma symmetry_score_spec_halves:
  assumes "0 < h" and "0 < w"
  shows "symmetry_score_spec (replicate h (replicate w a @ replicate w b))
         = 1 - \<bar>real (unat a) - real (unat b)\<bar> / 255"
  unfolding symmetry_score_spec_def Let_def shape1_halves [OF assms(1)]
  by (simp add: flip1_def mean_abs_difference_uniform [OF assms])

text \<open>Whatever the image, the score of the code lies between 0 and 1.\<close>

lemma sum_unat_le: "sum_list (map unat (xs :: 8 word list)) \<le> 255 * length xs"
proof (induction xs)
  case Nil
  show ?case by simp
next
  case (Cons x xs)
  have "unat x < 2 ^ 8" using unsigned_less [of x, where ?'a = nat] by simp
  then have "unat x \<le> 255" by simp
  with Cons show ?case by simp
qed

lemma mean_unat_range:
  "0 \<le> real (sum_list (map unat (xs :: 8 word list))) / real (length xs)
   \<and> real (sum_list (map unat xs)) / real (length xs) \<le> 255"
proof (cases xs)
  case Nil
  then show ?thesis by simp
next
  case (Cons y ys)
  then have pos: "0 < real (length xs)" by simp
  have "real (sum_list (map unat xs)) \<le> 255 * real (length xs)"
    using sum_unat_le [of xs] by (metis of_nat_le_iff of_nat_mult of_nat_numeral)
  with pos show ?thesis by (simp add: pos_divide_le_eq)
qed

lemma np_mean_range: "0 \<le> np_mean a \<and> np_mean a \<le> 255"
  unfolding np_mean_def by (rule mean_unat_range)

lemma symmetry_score_range:
  assumes "symmetry_score g = Inr s"
  shows "0 \<le> s \<and> s \<le> 1"
proof -
  from assms obtain d where "s = 1 - np_mean (np_abs d) / 255"
    by (auto simp: symmetry_score_def Let_def bind_exn_Inr)
  with np_mean_range [of "np_abs d"] show ?thesis by simp
qed

lemma gray_half_dark:
  "map (map gray_of) half_dark = replicate 640 (replicate 320 0 @ replicate 320 1)"
  by (simp add: half_dark_def gray_of_def)

text \<open>
  C9. On the 640 by 640 image whose left half is black and whose right half has
  the value 1 in every channel, the grayscale image is 0 on the left and 1 on
  the right. The mean absolute difference of the halves is 1, so the claimed
  score is \<open>1 - 1/255\<close>. The code subtracts \<^verbatim>\<open>uint8\<close> arrays: \<open>0 - 1\<close> wraps to
  255 before \<^verbatim>\<open>np.abs\<close> is applied, and the score is 0.
\<close>

theorem symmetry_score_wraps_around:
  "symmetry_score (map (map gray_of) half_dark) = Inr 0
   \<and> symmetry_score_spec (map (map gray_of) half_dark) = 254 / 255"
proof -
  have w: "(- 1 :: 8 word) = 255" by simp
  have "real (unat (0 - 1 :: 8 word)) = 255" by (simp add: w)
  then show ?thesis
    unfolding gray_half_dark
    by (simp add: symmetry_score_halves symmetry_score_spec_halves)
qed

subsection \<open>The health feature vector\<close>

lemma health_features_layout:
  assumes "extract_health_features cv img = Inr fs"
  shows "\<exists>resized. resize cv img (256, 256) = Inr resized
           \<and> length fs = 9
           \<and> fs ! 5 = np_mean (plane0 resized)
           \<and> fs ! 6 = np_mean (plane1 resized)
           \<and> fs ! 7 = np_mean (plane2 resized)"
  using assms
  unfolding extract_health_features_def Let_def bind_exn_Inr
  by (elim exE conjE) auto

text \<open>
  C4. The vector has 9 entries in the fixed order, and its entries 6 to 8
  (indices 5 to 7) are the means of the channels 0, 1 and 2 of the resized image
  (\<open>health_features_layout\<close>). An image from \<^verbatim>\<open>cv2.imread\<close> has blue at channel 0
  and red at channel 2, so the entry named \<^verbatim>\<open>r_mean\<close> is the mean of blue: on a
  uniformly red image it is 0 and the entry named \<^verbatim>\<open>b_mean\<close> is 255, while the
  mean of the red channel is 255 and that of the blue channel 0.
\<close>

theorem health_features_swap_red_and_blue:
  "extract_health_features stub_cv (uniform 256 256 red)
     = Inr [0, 0, 1, 1, 1, 0, 0, 255, 65025]
   \<and> np_mean (plane2 (uniform 256 256 red)) = 255
   \<and> np_mean (plane0 (uniform 256 256 red)) = 0"
  by (simp add: extract_health_features_def stub_resize)
     (simp add: stub_cv_def bind_exn_def stub_graycoprops_def stub_threshold_def map_uniform
      plane_uniform np_mean_uniform length_uniform shape1_uniform count_nonzero_uniform
      red_def uniform_eq_Nil gray_of_def)

subsection \<open>Keys bound to no object\<close>

lemma load_rf_health_effect:
  assumes "\<forall>path e. classifier_file fs path \<noteq> Corrupt e"
  shows "\<exists>p'. load_rf_health fs mp p = Inr p'
           \<and> label_encoders p' = label_encoders p
           \<and> (\<forall>k. k \<noteq> ''random_forest_health'' \<longrightarrow> map_of (models p') k = map_of (models p) k)"
  using assms
  by (cases "classifier_file fs (path_join mp ''healthy_vs_diseased_model.pkl'')")
     (simp_all add: load_rf_health_def update_conv')

lemma load_rf_disease_effect:
  assumes "\<forall>path e. classifier_file fs path \<noteq> Corrupt e"
  shows "\<exists>p'. load_rf_disease fs mp p = Inr p'
           \<and> label_encoders p' = label_encoders p
           \<and> (\<forall>k. k \<noteq> ''random_forest_disease'' \<longrightarrow> map_of (models p') k = map_of (models p) k)
           \<and> (classifier_file fs (path_join mp ''disease_classifier_model.pkl'') = Missing
                \<longrightarrow> models p' = models p)"
  using assms
  by (cases "classifier_file fs (path_join mp ''disease_classifier_model.pkl'')")
     (simp_all add: load_rf_disease_def update_conv')

lemma load_rf_encoder_effect:
  assumes "\<forall>path e. encoder_file fs path \<noteq> Corrupt e"
  shows "\<exists>p'. load_rf_encoder fs mp p = Inr p'
           \<and> models p' = models p
           \<and> (\<forall>k. k \<noteq> ''random_forest''
                \<longrightarrow> map_of (label_encoders p') k = map_of (label_encoders p) k)
           \<and> (encoder_file fs (path_join mp ''disease_label_encoder.pkl'') = Missing
                \<longrightarrow> label_encoders p' = label_encoders p)"
  using assms
  by (cases "encoder_file fs (path_join mp ''disease_label_encoder.pkl'')")
     (simp_all add: load_rf_encoder_def update_conv')

lemma load_svm_health_effect:
  assumes "\<forall>path e. classifier_file fs path \<noteq> Corrupt e"
  shows "\<exists>p'. load_svm_health fs mp p = Inr p'
           \<and> label_encoders p' = label_encoders p
           \<and> (\<forall>k. k \<noteq> ''svm_health'' \<longrightarrow> map_of (models p') k = map_of (models p) k)"
  using assms
  by (cases "classifier_file fs (path_join mp ''healthy_vs_diseased_svm_model.pkl'')")
     (simp_all add: load_svm_health_def update_conv')

lemma load_svm_disease_effect:
  assumes "\<forall>path e. classifier_file fs path \<noteq> Corrupt e"
  shows "\<exists>p'. load_svm_disease fs mp p = Inr p'
           \<and> (\<forall>k. k \<noteq> ''svm_disease'' \<longrightarrow> map_of (models p') k = map_of (models p) k)
           \<and> (\<forall>k. k \<noteq> ''svm''
                \<longrightarrow> map_of (label_encoders p') k = map_of (label_encoders p) k)
           \<and> (\<forall>m. classifier_file fs (path_join mp ''svm_disease_classifier_model.pkl'') = Loads m
                \<longrightarrow> map_of (label_encoders p') ''svm''
                      = Some (dict_get (label_encoders p) ''random_forest''))"
  using assms
  by (cases "classifier_file fs (path_join mp ''svm_disease_classifier_model.pkl'')")
     (simp_all add: load_svm_disease_def update_conv')

lemma load_knn_health_effect:
  assumes "\<forall>path e. classifier_file fs path \<noteq> Corrupt e"
  shows "\<exists>p'. load_knn_health fs mp p = Inr p'
           \<and> label_encoders p' = label_encoders p
           \<and> (\<forall>k. k \<noteq> ''knn_health'' \<longrightarrow> map_of (models p') k = map_of (models p) k)
           \<and> (\<forall>m. classifier_file fs (path_join mp ''healthy_vs_diseased_knn_model.pkl'') = Loads m
                \<longrightarrow> map_of (models p') ''knn_health'' = Some (Some m))"
  using assms
  by (cases "classifier_file fs (path_join mp ''healthy_vs_diseased_knn_model.pkl'')")
     (simp_all add: load_knn_health_def update_conv')

lemma load_knn_disease_effect:
  assumes "\<forall>path e. classifier_file fs path \<noteq> Corrupt e"
  shows "\<exists>p'. load_knn_disease fs mp p = Inr p'
           \<and> label_encoders p' = label_encoders p
           \<and> (\<forall>k. k \<noteq> ''knn_disease'' \<longrightarrow> map_of (models p') k = map_of (models p) k)
           \<and> (\<forall>m. classifier_file fs (path_join mp ''knn_disease_classifier_model.pkl'') = Missing
                  \<and> classifier_file fs (path_join mp ''healthy_vs_diseased_knn_model.pkl'') = Loads m
                \<longrightarrow> map_of (models p') ''knn_disease''
                      = Some (dict_get (models p) ''random_forest_disease''))"
  using assms
  by (cases "classifier_file fs (path_join mp ''knn_disease_classifier_model.pkl'')")
     (auto simp: load_knn_disease_def update_conv')

lemma load_knn_encoder_effect:
  assumes "\<forall>path e. encoder_file fs path \<noteq> Corrupt e"
  shows "\<exists>p'. load_knn_encoder fs mp p = Inr p'
           \<and> models p' = models p
           \<and> (\<forall>k. k \<noteq> ''knn''
                \<longrightarrow> map_of (label_encoders p') k = map_of (label_encoders p) k)
           \<and> (encoder_file fs (path_join mp ''knn_disease_label_encoder.pkl'') = Missing
                  \<and> has_key (models p) ''knn_health''
                \<longrightarrow> map_of (label_encoders p') ''knn''
                      = Some (dict_get (label_encoders p) ''random_forest''))"
  using assms
  by (cases "encoder_file fs (path_join mp ''knn_disease_label_encoder.pkl'')")
     (auto simp: load_knn_encoder_def update_conv')

lemma load_models_bindings:
  assumes c: "\<forall>path e. classifier_file fs path \<noteq> Corrupt e"
    and e: "\<forall>path e. encoder_file fs path \<noteq> Corrupt e"
  shows "(\<forall>m. classifier_file fs (path_join mp ''healthy_vs_diseased_knn_model.pkl'') = Loads m
            \<and> classifier_file fs (path_join mp ''knn_disease_classifier_model.pkl'') = Missing
            \<and> classifier_file fs (path_join mp ''disease_classifier_model.pkl'') = Missing
          \<longrightarrow> map_of (models (load_models fs mp)) ''knn_disease'' = Some None)
       \<and> (\<forall>m. encoder_file fs (path_join mp ''disease_label_encoder.pkl'') = Missing
            \<and> classifier_file fs (path_join mp ''svm_disease_classifier_model.pkl'') = Loads m
          \<longrightarrow> map_of (label_encoders (load_models fs mp)) ''svm'' = Some None)
       \<and> (\<forall>m. encoder_file fs (path_join mp ''disease_label_encoder.pkl'') = Missing
            \<and> encoder_file fs (path_join mp ''knn_disease_label_encoder.pkl'') = Missing
            \<and> classifier_file fs (path_join mp ''healthy_vs_diseased_knn_model.pkl'') = Loads m
          \<longrightarrow> map_of (label_encoders (load_models fs mp)) ''knn'' = Some None)"
proof -
  let ?p0 = "\<lparr>models = [], label_encoders = []\<rparr>"
  from load_rf_health_effect [OF c, of mp ?p0] obtain p1 where
    s1: "load_rf_health fs mp ?p0 = Inr p1"
    and e1: "label_encoders p1 = []"
    and m1: "\<forall>k. k \<noteq> ''random_forest_health'' \<longrightarrow> map_of (models p1) k = None"
    by auto
  from load_rf_disease_effect [OF c, of mp p1] obtain p2 where
    s2: "load_rf_disease fs mp p1 = Inr p2"
    and e2: "label_encoders p2 = label_encoders p1"
    and m2: "\<forall>k. k \<noteq> ''random_forest_disease'' \<longrightarrow> map_of (models p2) k = map_of (models p1) k"
    and x2: "classifier_file fs (path_join mp ''disease_classifier_model.pkl'') = Missing
                \<longrightarrow> models p2 = models p1"
    by blast
  from load_rf_encoder_effect [OF e, of mp p2] obtain p3 where
    s3: "load_rf_encoder fs mp p2 = Inr p3"
    and m3: "models p3 = models p2"
    and e3: "\<forall>k. k \<noteq> ''random_forest''
                \<longrightarrow> map_of (label_encoders p3) k = map_of (label_encoders p2) k"
    and x3: "encoder_file fs (path_join mp ''disease_label_encoder.pkl'') = Missing
                \<longrightarrow> label_encoders p3 = label_encoders p2"
    by blast
  from load_svm_health_effect [OF c, of mp p3] obtain p4 where
    s4: "load_svm_health fs mp p3 = Inr p4"
    and e4: "label_encoders p4 = label_encoders p3"
    and m4: "\<forall>k. k \<noteq> ''svm_health'' \<longrightarrow> map_of (models p4) k = map_of (models p3) k"
    by blast
  from load_svm_disease_effect [OF c, of mp p4] obtain p5 where
    s5: "load_svm_disease fs mp p4 = Inr p5"
    and m5: "\<forall>k. k \<noteq> ''svm_disease'' \<longrightarrow> map_of (models p5) k = map_of (models p4) k"
    and e5: "\<forall>k. k \<noteq> ''svm''
                \<longrightarrow> map_of (label_encoders p5) k = map_of (label_encoders p4) k"
    and x5: "\<forall>m. classifier_file fs (path_join mp ''svm_disease_classifier_model.pkl'') = Loads m
                \<longrightarrow> map_of (label_encoders p5) ''svm''
                      = Some (dict_get (label_encoders p4) ''random_forest'')"
    by blast
  from load_knn_health_effect [OF c, of mp p5] obtain p6 where
    s6: "load_knn_health fs mp p5 = Inr p6"
    and e6: "label_encoders p6 = label_encoders p5"
    and m6: "\<forall>k. k \<noteq> ''knn_health'' \<longrightarrow> map_of (models p6) k = map_of (models p5) k"
    and x6: "\<forall>m. classifier_file fs (path_join mp ''healthy_vs_diseased_knn_model.pkl'') = Loads m
                \<longrightarrow> map_of (models p6) ''knn_health'' = Some (Some m)"
    by blast
  from load_knn_disease_effect [OF c, of mp p6] obtain p7 where
    s7: "load_knn_disease fs mp p6 = Inr p7"
    and e7: "label_encoders p7 = label_encoders p6"
    and m7: "\<forall>k. k \<noteq> ''knn_disease'' \<longrightarrow> map_of (models p7) k = map_of (models p6) k"
    and x7: "\<forall>m. classifier_file fs (path_join mp ''knn_disease_classifier_model.pkl'') = Missing
                  \<and> classifier_file fs (path_join mp ''healthy_vs_diseased_knn_model.pkl'') = Loads m
                \<longrightarrow> map_of (models p7) ''knn_disease''
                      = Some (dict_get (models p6) ''random_forest_disease'')"
    by blast
  from load_knn_encoder_effect [OF e, of mp p7] obtain p8 where
    s8: "load_knn_encoder fs mp p7 = Inr p8"
    and m8: "models p8 = models p7"
    and e8: "\<forall>k. k \<noteq> ''knn''
                \<longrightarrow> map_of (label_encoders p8) k = map_of (label_encoders p7) k"
    and x8: "encoder_file fs (path_join mp ''knn_disease_label_encoder.pkl'') = Missing
                  \<and> has_key (models p7) ''knn_health''
                \<longrightarrow> map_of (label_encoders p8) ''knn''
                      = Some (dict_get (label_encoders p7) ''random_forest'')"
    by blast
  have l: "load_models fs mp = p8"
    by (simp add: load_models_def s1 s2 s3 s4 s5 s6 s7 s8)
  have rf6: "classifier_file fs (path_join mp ''disease_classifier_model.pkl'') = Missing
             \<Longrightarrow> dict_get (models p6) ''random_forest_disease'' = None"
    using m1 x2 m3 m4 m5 m6 by (simp add: dict_get_def)
  have enc4: "encoder_file fs (path_join mp ''disease_label_encoder.pkl'') = Missing
             \<Longrightarrow> dict_get (label_encoders p4) ''random_forest'' = None"
    using e1 e2 x3 e4 by (simp add: dict_get_def)
  have enc7: "encoder_file fs (path_join mp ''disease_label_encoder.pkl'') = Missing
             \<Longrightarrow> dict_get (label_encoders p7) ''random_forest'' = None"
    using e1 e2 x3 e4 e5 e6 e7 by (simp add: dict_get_def)
  have kh7: "classifier_file fs (path_join mp ''healthy_vs_diseased_knn_model.pkl'') = Loads m
             \<Longrightarrow> has_key (models p7) ''knn_health''" for m
    using x6 m7 by (simp add: has_key_def)
  show ?thesis
  proof (intro conjI allI impI)
    fix m
    assume "classifier_file fs (path_join mp ''healthy_vs_diseased_knn_model.pkl'') = Loads m
            \<and> classifier_file fs (path_join mp ''knn_disease_classifier_model.pkl'') = Missing
            \<and> classifier_file fs (path_join mp ''disease_classifier_model.pkl'') = Missing"
    with x7 rf6 show "map_of (models (load_models fs mp)) ''knn_disease'' = Some None"
      by (simp add: l m8)
  next
    fix m
    assume "encoder_file fs (path_join mp ''disease_label_encoder.pkl'') = Missing
            \<and> classifier_file fs (path_join mp ''svm_disease_classifier_model.pkl'') = Loads m"
    with x5 enc4 e6 e7 e8 show "map_of (label_encoders (load_models fs mp)) ''svm'' = Some None"
      by (simp add: l)
  next
    fix m
    assume "encoder_file fs (path_join mp ''disease_label_encoder.pkl'') = Missing
            \<and> encoder_file fs (path_join mp ''knn_disease_label_encoder.pkl'') = Missing
            \<and> classifier_file fs (path_join mp ''healthy_vs_diseased_knn_model.pkl'') = Loads m"
    with x8 enc7 kh7 show "map_of (label_encoders (load_models fs mp)) ''knn'' = Some None"
      by (simp add: l)
  qed
qed

lemma knn_none_fails_in_handler:
  assumes "map_of (models p) ''knn_disease'' = Some None"
    and "imread cv path = Some img"
    and "extract_health_features cv img = Inr hf"
    and "map_of (models p) (''knn'' @ ''_health'') = Some (Some hm)"
    and "predict_fn hm hf = Inr k" and "k \<noteq> 0"
    and "extract_disease_features cv img = Inr fs"
  shows "predict cv p path ''knn'' t0 t1
           = failure (''KNN disease prediction error: '' @ attribute_error ''predict'') (t1 - t0)"
proof -
  have "diseased_branch cv p img ''knn'' (t1 - t0)
          = (Inr (failure (''KNN disease prediction error: '' @ attribute_error ''predict'')
                    (t1 - t0)), [Extract_Disease])"
    using assms(1,7)
    by (simp add: diseased_branch_def select_disease_model_def has_key_def predict_disease_def
        knn_branch_def knn_try_def)
  then show ?thesis
    unfolding predict_def predict_run_diseased [OF assms(2-6)] by simp
qed

lemma encoder_none_fails_in_handler:
  assumes "map_of (label_encoders p) mt = Some None"
    and "imread cv path = Some img"
    and "extract_health_features cv img = Inr hf"
    and "map_of (models p) (mt @ ''_health'') = Some (Some hm)"
    and "predict_fn hm hf = Inr k" and "k \<noteq> 0"
    and "extract_disease_features cv img = Inr fs"
    and "select_disease_model p mt = Some dm"
    and "predict_disease p mt dm fs (t1 - t0) = (Value (pred, c), calls)"
  shows "predict cv p path mt t0 t1
           = failure (''Prediction error: '' @ attribute_error ''inverse_transform'') (t1 - t0)"
proof -
  have "resolve_label p mt pred (t1 - t0) = Raised (attribute_error ''inverse_transform'')"
    using assms(1) by (simp add: resolve_label_def has_key_def)
  then have "diseased_branch cv p img mt (t1 - t0)
          = (Inl (attribute_error ''inverse_transform''), Extract_Disease # calls)"
    using assms(7-9) by (simp add: diseased_branch_def)
  then show ?thesis
    unfolding predict_def predict_run_diseased [OF assms(2-6)] by simp
qed

text \<open>
  C10. Let no file of the model directory fail to load. If the KNN health model
  loads and the files of the KNN and of the random-forest disease model are
  missing, \<open>load_models\<close> stores \<^verbatim>\<open>None\<close> under \<open>knn_disease\<close>; if the
  random-forest encoder is missing, it stores \<^verbatim>\<open>None\<close> under \<open>svm\<close> when the SVM
  disease model loads, and under \<open>knn\<close> when the KNN encoder is missing and the
  KNN health model loads. A prediction in the diseased branch that uses such a
  key finds the key present and ends in a catch-all \<^verbatim>\<open>except Exception\<close>
  handler, with the text of the \<^verbatim>\<open>AttributeError\<close> in the message: the handler
  of the KNN branch (lines 305-312) for the classifier, the handler of
  \<open>predict\<close> (lines 363-372) for an encoder. The message is neither
  \<open>No disease classification model available\<close> nor
  \<open>Label encoder not available\<close>.
\<close>

theorem none_bound_keys_fail_in_handlers:
  assumes "\<forall>path e. classifier_file dir path \<noteq> Corrupt e"
    and "\<forall>path e. encoder_file dir path \<noteq> Corrupt e"
  shows "(\<forall>m. classifier_file dir (path_join mp ''healthy_vs_diseased_knn_model.pkl'') = Loads m
            \<and> classifier_file dir (path_join mp ''knn_disease_classifier_model.pkl'') = Missing
            \<and> classifier_file dir (path_join mp ''disease_classifier_model.pkl'') = Missing
          \<longrightarrow> map_of (models (load_models dir mp)) ''knn_disease'' = Some None)
       \<and> (\<forall>m. encoder_file dir (path_join mp ''disease_label_encoder.pkl'') = Missing
            \<and> classifier_file dir (path_join mp ''svm_disease_classifier_model.pkl'') = Loads m
          \<longrightarrow> map_of (label_encoders (load_models dir mp)) ''svm'' = Some None)
       \<and> (\<forall>m. encoder_file dir (path_join mp ''disease_label_encoder.pkl'') = Missing
            \<and> encoder_file dir (path_join mp ''knn_disease_label_encoder.pkl'') = Missing
            \<and> classifier_file dir (path_join mp ''healthy_vs_diseased_knn_model.pkl'') = Loads m
          \<longrightarrow> map_of (label_encoders (load_models dir mp)) ''knn'' = Some None)
       \<and> (\<forall>p cv image_path img health_features health_model k fs t0 t1.
            map_of (models p) ''knn_disease'' = Some None
            \<and> imread cv image_path = Some img
            \<and> extract_health_features cv img = Inr health_features
            \<and> map_of (models p) (''knn'' @ ''_health'') = Some (Some health_model)
            \<and> predict_fn health_model health_features = Inr k \<and> k \<noteq> 0
            \<and> extract_disease_features cv img = Inr fs
          \<longrightarrow> has_key (models p) ''knn_disease''
              \<and> predict cv p image_path ''knn'' t0 t1
                  = failure (''KNN disease prediction error: '' @ attribute_error ''predict'')
                      (t1 - t0)
              \<and> message (predict cv p image_path ''knn'' t0 t1)
                  \<noteq> Some ''No disease classification model available'')
       \<and> (\<forall>p model_type cv image_path img health_features health_model k fs disease_model
              pred c calls t0 t1.
            map_of (label_encoders p) model_type = Some None
            \<and> imread cv image_path = Some img
            \<and> extract_health_features cv img = Inr health_features
            \<and> map_of (models p) (model_type @ ''_health'') = Some (Some health_model)
            \<and> predict_fn health_model health_features = Inr k \<and> k \<noteq> 0
            \<and> extract_disease_features cv img = Inr fs
            \<and> select_disease_model p model_type = Some disease_model
            \<and> predict_disease p model_type disease_model fs (t1 - t0) = (Value (pred, c), calls)
          \<longrightarrow> has_key (label_encoders p) model_type
              \<and> predict cv p image_path model_type t0 t1
                  = failure (''Prediction error: '' @ attribute_error ''inverse_transform'')
                      (t1 - t0)
              \<and> message (predict cv p image_path model_type t0 t1)
                  \<noteq> Some ''Label encoder not available'')"
proof -
  note l = load_models_bindings [OF assms, of mp]
  have b1: "has_key (models p) ''knn_disease''
              \<and> predict cv p image_path ''knn'' t0 t1
                  = failure (''KNN disease prediction error: '' @ attribute_error ''predict'')
                      (t1 - t0)
              \<and> message (predict cv p image_path ''knn'' t0 t1)
                  \<noteq> Some ''No disease classification model available''"
    if "map_of (models p) ''knn_disease'' = Some None
            \<and> imread cv image_path = Some img
            \<and> extract_health_features cv img = Inr health_features
            \<and> map_of (models p) (''knn'' @ ''_health'') = Some (Some health_model)
            \<and> predict_fn health_model health_features = Inr k \<and> k \<noteq> 0
            \<and> extract_disease_features cv img = Inr fs"
    for p cv image_path img health_features health_model k fs t0 t1
  proof -
    from that have "predict cv p image_path ''knn'' t0 t1
        = failure (''KNN disease prediction error: '' @ attribute_error ''predict'') (t1 - t0)"
      by (intro knn_none_fails_in_handler) blast+
    with that show ?thesis by (simp add: has_key_def failure_simps)
  qed
  have b2: "has_key (label_encoders p) model_type
              \<and> predict cv p image_path model_type t0 t1
                  = failure (''Prediction error: '' @ attribute_error ''inverse_transform'')
                      (t1 - t0)
              \<and> message (predict cv p image_path model_type t0 t1)
                  \<noteq> Some ''Label encoder not available''"
    if "map_of (label_encoders p) model_type = Some None
            \<and> imread cv image_path = Some img
            \<and> extract_health_features cv img = Inr health_features
            \<and> map_of (models p) (model_type @ ''_health'') = Some (Some health_model)
            \<and> predict_fn health_model health_features = Inr k \<and> k \<noteq> 0
            \<and> extract_disease_features cv img = Inr fs
            \<and> select_disease_model p model_type = Some disease_model
            \<and> predict_disease p model_type disease_model fs (t1 - t0) = (Value (pred, c), calls)"
    for p model_type cv image_path img health_features health_model k fs disease_model
      pred c calls t0 t1
  proof -
    from that have "predict cv p image_path model_type t0 t1
        = failure (''Prediction error: '' @ attribute_error ''inverse_transform'') (t1 - t0)"
      by (intro encoder_none_fails_in_handler) blast+
    with that show ?thesis by (simp add: has_key_def failure_simps)
  qed
  show ?thesis
    apply (intro conjI allI impI)
            apply (rule l [THEN conjunct1, rule_format], assumption)
           apply (rule l [THEN conjunct2, THEN conjunct1, rule_format], assumption)
          apply (rule l [THEN conjunct2, THEN conjunct2, rule_format], assumption)
         apply (erule b1 [THEN conjunct1])
        apply (erule b1 [THEN conjunct2, THEN conjunct1])
       apply (erule b1 [THEN conjunct2, THEN conjunct2])
      apply (erule b2 [THEN conjunct1])
     apply (erule b2 [THEN conjunct2, THEN conjunct1])
    apply (erule b2 [THEN conjunct2, THEN conjunct2])
    done
qed

lemma load_knn_only:
  "load_models knn_only_dir ''./models'' =
     \<lparr>models = [(''knn_health'', Some (stub_health 1 [2 / 10, 8 / 10])), (''knn_disease'', None)],
      label_encoders = [(''knn'', None)]\<rparr>"
  by (simp add: load_models_def load_rf_health_def load_rf_disease_def load_rf_encoder_def
      load_svm_health_def load_svm_disease_def load_knn_health_def load_knn_disease_def
      load_knn_encoder_def knn_only_dir_def path_join_def dict_get_def has_key_def)

lemma load_svm_only:
  "load_models svm_only_dir ''./models'' =
     \<lparr>models = [(''svm_health'', Some (stub_health 1 [2 / 10, 8 / 10])),
                (''svm_disease'', Some (stub_disease False (Some [''mean_g'', ''entropy''])))],
      label_encoders = [(''svm'', None)]\<rparr>"
  by (simp add: load_models_def load_rf_health_def load_rf_disease_def load_rf_encoder_def
      load_svm_health_def load_svm_disease_def load_knn_health_def load_knn_disease_def
      load_knn_encoder_def svm_only_dir_def path_join_def dict_get_def has_key_def)

theorem none_bound_keys_fail_in_handlers_witness:
  "map_of (models (load_models knn_only_dir ''./models'')) ''knn_disease'' = Some None
   \<and> map_of (label_encoders (load_models knn_only_dir ''./models'')) ''knn'' = Some None
   \<and> map_of (label_encoders (load_models svm_only_dir ''./models'')) ''svm'' = Some None
   \<and> predict stub_cv (load_models knn_only_dir ''./models'') ''leaf.jpg'' ''knn'' 0 1
       = failure (''KNN disease prediction error: '' @ quote @ ''NoneType'' @ quote
                  @ '' object has no attribute '' @ quote @ ''predict'' @ quote) 1
   \<and> predict stub_cv (load_models svm_only_dir ''./models'') ''leaf.jpg'' ''svm'' 0 1
       = failure (''Prediction error: '' @ quote @ ''NoneType'' @ quote
                  @ '' object has no attribute '' @ quote @ ''inverse_transform'' @ quote) 1"
proof -
  have ck: "\<forall>path e. classifier_file knn_only_dir path \<noteq> Corrupt e"
    and ek: "\<forall>path e. encoder_file knn_only_dir path \<noteq> Corrupt e"
    and cs: "\<forall>path e. classifier_file svm_only_dir path \<noteq> Corrupt e"
    and es: "\<forall>path e. encoder_file svm_only_dir path \<noteq> Corrupt e"
    by (simp_all add: knn_only_dir_def svm_only_dir_def)
  have h: "predict_fn (stub_health 1 [2 / 10, 8 / 10]) stub_health_features = Inr 1"
    by (simp add: stub_health_def)
  have one: "(1::int) \<noteq> 0" by simp
  have fk: "classifier_file knn_only_dir (path_join ''./models'' ''healthy_vs_diseased_knn_model.pkl'')
              = Loads (stub_health 1 [2 / 10, 8 / 10])"
    "classifier_file knn_only_dir (path_join ''./models'' ''knn_disease_classifier_model.pkl'') = Missing"
    "classifier_file knn_only_dir (path_join ''./models'' ''disease_classifier_model.pkl'') = Missing"
    "encoder_file knn_only_dir (path_join ''./models'' ''disease_label_encoder.pkl'') = Missing"
    "encoder_file knn_only_dir (path_join ''./models'' ''knn_disease_label_encoder.pkl'') = Missing"
    by (simp_all add: knn_only_dir_def path_join_def)
  have fsv: "encoder_file svm_only_dir (path_join ''./models'' ''disease_label_encoder.pkl'') = Missing"
    "classifier_file svm_only_dir (path_join ''./models'' ''svm_disease_classifier_model.pkl'')
       = Loads (stub_disease False (Some [''mean_g'', ''entropy'']))"
    by (simp_all add: svm_only_dir_def path_join_def)
  have hk: "map_of (models (load_models knn_only_dir ''./models'')) (''knn'' @ ''_health'')
              = Some (Some (stub_health 1 [2 / 10, 8 / 10]))"
    by (simp add: load_knn_only)
  have hs: "map_of (models (load_models svm_only_dir ''./models'')) (''svm'' @ ''_health'')
              = Some (Some (stub_health 1 [2 / 10, 8 / 10]))"
    by (simp add: load_svm_only)
  have ss: "select_disease_model (load_models svm_only_dir ''./models'') ''svm''
              = Some (Some (stub_disease False (Some [''mean_g'', ''entropy''])))"
    by (simp add: load_svm_only select_disease_model_def has_key_def)
  have ps: "predict_disease (load_models svm_only_dir ''./models'') ''svm''
              (Some (stub_disease False (Some [''mean_g'', ''entropy'']))) stub_features (1 - 0)
              = (Value (2, 75 / 100), [Disease_Predict (features_row [''mean_g'', ''entropy''] stub_features)])"
    by (simp add: predict_disease_def standard_branch_def stub_disease_def)
  note tk = none_bound_keys_fail_in_handlers [OF ck ek, of "''./models''"]
  note ts = none_bound_keys_fail_in_handlers [OF cs es, of "''./models''"]
  have a1: "map_of (models (load_models knn_only_dir ''./models'')) ''knn_disease'' = Some None"
    using tk [THEN conjunct1, rule_format] fk by blast
  have a2: "map_of (label_encoders (load_models svm_only_dir ''./models'')) ''svm'' = Some None"
    using ts [THEN conjunct2, THEN conjunct1, rule_format] fsv by blast
  have a3: "map_of (label_encoders (load_models knn_only_dir ''./models'')) ''knn'' = Some None"
    using tk [THEN conjunct2, THEN conjunct2, THEN conjunct1, rule_format] fk by blast
  have p1: "map_of (models (load_models knn_only_dir ''./models'')) ''knn_disease'' = Some None
            \<and> imread stub_cv ''leaf.jpg'' = Some (uniform 256 256 green)
            \<and> extract_health_features stub_cv (uniform 256 256 green) = Inr stub_health_features
            \<and> map_of (models (load_models knn_only_dir ''./models'')) (''knn'' @ ''_health'')
                = Some (Some (stub_health 1 [2 / 10, 8 / 10]))
            \<and> predict_fn (stub_health 1 [2 / 10, 8 / 10]) stub_health_features = Inr 1
            \<and> (1::int) \<noteq> 0
            \<and> extract_disease_features stub_cv (uniform 256 256 green) = Inr stub_features"
    using a1 stub_imread stub_extract_health hk h stub_extract_disease by simp
  have b1: "predict stub_cv (load_models knn_only_dir ''./models'') ''leaf.jpg'' ''knn'' 0 1
       = failure (''KNN disease prediction error: '' @ quote @ ''NoneType'' @ quote
                  @ '' object has no attribute '' @ quote @ ''predict'' @ quote) 1"
    using tk [THEN conjunct2, THEN conjunct2, THEN conjunct2, THEN conjunct1, rule_format,
        OF p1, THEN conjunct2, THEN conjunct1]
    by (simp add: attribute_error_def)
  have p2: "map_of (label_encoders (load_models svm_only_dir ''./models'')) ''svm'' = Some None
            \<and> imread stub_cv ''leaf.jpg'' = Some (uniform 256 256 green)
            \<and> extract_health_features stub_cv (uniform 256 256 green) = Inr stub_health_features
            \<and> map_of (models (load_models svm_only_dir ''./models'')) (''svm'' @ ''_health'')
                = Some (Some (stub_health 1 [2 / 10, 8 / 10]))
            \<and> predict_fn (stub_health 1 [2 / 10, 8 / 10]) stub_health_features = Inr 1
            \<and> (1::int) \<noteq> 0
            \<and> extract_disease_features stub_cv (uniform 256 256 green) = Inr stub_features
            \<and> select_disease_model (load_models svm_only_dir ''./models'') ''svm''
                = Some (Some (stub_disease False (Some [''mean_g'', ''entropy''])))
            \<and> predict_disease (load_models svm_only_dir ''./models'') ''svm''
                 (Some (stub_disease False (Some [''mean_g'', ''entropy'']))) stub_features (1 - 0)
                = (Value (2, 75 / 100),
                   [Disease_Predict (features_row [''mean_g'', ''entropy''] stub_features)])"
    using a2 stub_imread stub_extract_health hs h stub_extract_disease ss ps by simp
  have b2: "predict stub_cv (load_models svm_only_dir ''./models'') ''leaf.jpg'' ''svm'' 0 1
       = failure (''Prediction error: '' @ quote @ ''NoneType'' @ quote
                  @ '' object has no attribute '' @ quote @ ''inverse_transform'' @ quote) 1"
    using ts [THEN conjunct2, THEN conjunct2, THEN conjunct2, THEN conjunct2, rule_format,
        OF p2, THEN conjunct2, THEN conjunct1]
    by (simp add: attribute_error_def)
  from a1 a3 a2 b1 b2 show ?thesis by simp
qed

subsection \<open>Failures stay inside the predictor\<close>

lemma predict_disease_knn:
  "has_key (models p) ''knn_disease''
     \<Longrightarrow> predict_disease p ''knn'' dm fs dt = knn_branch dm fs dt"
  by (simp add: predict_disease_def)

lemma predict_disease_standard:
  "(mt = ''knn'' \<longrightarrow> \<not> has_key (models p) ''knn_disease'')
     \<Longrightarrow> predict_disease p mt dm fs dt = standard_branch dm fs dt"
  by (auto simp: predict_disease_def)

text \<open>
  C5. For every image path, backend and registry, \<open>predict\<close> returns a result
  whose processing time is the clock reading at the return minus the reading
  taken at the start, and a result that is not a success has the prediction
  \<open>Error\<close> and a nonempty message. Every terminal failure of the request
  yields such a failure, with the message of the code:
  \<^item> an image that does not load;
  \<^item> an exception of the health or of the disease feature extractor;
  \<^item> a health model that is not registered, that is no object, or whose
    \<^verbatim>\<open>predict\<close> raises;
  \<^item> no disease model under either key;
  \<^item> in the KNN branch, a disease model that is no object or whose
    \<^verbatim>\<open>predict\<close> raises;
  \<^item> in the branch of the other backends, a disease model without feature
    names, or whose \<^verbatim>\<open>predict\<close> or \<^verbatim>\<open>predict_proba\<close> raises, or whose
    probability vector has no entry at the predicted class;
  \<^item> a label encoder that is not registered, that is no object, or whose
    \<^verbatim>\<open>inverse_transform\<close> raises.
\<close>

theorem predict_recovers_every_failure:
  "processing_time (predict cv p image_path model_type t0 t1) = t1 - t0
   \<and> (\<not> success (predict cv p image_path model_type t0 t1)
        \<longrightarrow> prediction (predict cv p image_path model_type t0 t1) = ''Error''
          \<and> (\<exists>msg. msg \<noteq> [] \<and> message (predict cv p image_path model_type t0 t1) = Some msg))
   \<and> (imread cv image_path = None
        \<longrightarrow> predict cv p image_path model_type t0 t1
              = failure ''Could not load image'' (t1 - t0))
   \<and> (\<forall>img. imread cv image_path = Some img \<longrightarrow>
        (\<forall>e. extract_health_features cv img = Inl e
           \<longrightarrow> predict cv p image_path model_type t0 t1
                 = failure (''Prediction error: '' @ e) (t1 - t0))
      \<and> (\<forall>health_features. extract_health_features cv img = Inr health_features \<longrightarrow>
           (map_of (models p) (model_type @ ''_health'') = None
              \<longrightarrow> predict cv p image_path model_type t0 t1
                    = failure (''Model '' @ model_type @ '' not available. Available models: ''
                               @ str_keys (map fst (models p))) (t1 - t0))
         \<and> (map_of (models p) (model_type @ ''_health'') = Some None
              \<longrightarrow> predict cv p image_path model_type t0 t1
                    = failure (''Prediction error: '' @ attribute_error ''predict'') (t1 - t0))
         \<and> (\<forall>health_model.
              map_of (models p) (model_type @ ''_health'') = Some (Some health_model) \<longrightarrow>
              (\<forall>e. predict_fn health_model health_features = Inl e
                 \<longrightarrow> predict cv p image_path model_type t0 t1
                       = failure (''Prediction error: '' @ e) (t1 - t0))
            \<and> (\<forall>k. predict_fn health_model health_features = Inr k \<and> k \<noteq> 0 \<longrightarrow>
                 (\<forall>e. extract_disease_features cv img = Inl e
                    \<longrightarrow> predict cv p image_path model_type t0 t1
                          = failure (''Prediction error: '' @ e) (t1 - t0))
               \<and> (\<forall>fs. extract_disease_features cv img = Inr fs \<longrightarrow>
                    (select_disease_model p model_type = None
                       \<longrightarrow> predict cv p image_path model_type t0 t1
                             = failure ''No disease classification model available'' (t1 - t0))
                  \<and> (\<forall>disease_model. select_disease_model p model_type = Some disease_model \<longrightarrow>
                       (model_type = ''knn'' \<and> has_key (models p) ''knn_disease'' \<longrightarrow>
                          (disease_model = None
                             \<longrightarrow> predict cv p image_path model_type t0 t1
                                   = failure (''KNN disease prediction error: ''
                                              @ attribute_error ''predict'') (t1 - t0))
                        \<and> (\<forall>m e. disease_model = Some m
                              \<and> predict_fn m (case feature_names_in m of
                                                 Some cols \<Rightarrow> features_row cols fs
                                               | None \<Rightarrow> features_list fs) = Inl e
                             \<longrightarrow> predict cv p image_path model_type t0 t1
                                   = failure (''KNN disease prediction error: '' @ e) (t1 - t0)))
                     \<and> (\<not> (model_type = ''knn'' \<and> has_key (models p) ''knn_disease'') \<longrightarrow>
                          (disease_model = None
                             \<longrightarrow> predict cv p image_path model_type t0 t1
                                   = failure ''Model feature names not available'' (t1 - t0))
                        \<and> (\<forall>m. disease_model = Some m \<longrightarrow>
                             (feature_names_in m = None
                                \<longrightarrow> predict cv p image_path model_type t0 t1
                                      = failure ''Model feature names not available'' (t1 - t0))
                           \<and> (\<forall>cols. feature_names_in m = Some cols \<longrightarrow>
                                (\<forall>e. predict_fn m (features_row cols fs) = Inl e
                                   \<longrightarrow> predict cv p image_path model_type t0 t1
                                         = failure (''Prediction error: '' @ e) (t1 - t0))
                              \<and> (\<forall>pred proba.
                                   predict_fn m (features_row cols fs) = Inr pred
                                   \<and> predict_proba_fn m = Some proba \<longrightarrow>
                                   (\<forall>e. proba (features_row cols fs) = Inl e
                                      \<longrightarrow> predict cv p image_path model_type t0 t1
                                            = failure (''Prediction error: '' @ e) (t1 - t0))
                                 \<and> (\<forall>probs. proba (features_row cols fs) = Inr probs
                                        \<and> py_index probs pred = None
                                      \<longrightarrow> predict cv p image_path model_type t0 t1
                                            = failure (''Prediction error: ''
                                                       @ index_error pred (length probs))
                                                (t1 - t0))))))
                     \<and> (\<forall>pred c calls.
                          predict_disease p model_type disease_model fs (t1 - t0)
                            = (Value (pred, c), calls) \<longrightarrow>
                          (map_of (label_encoders p)
                             (if has_key (label_encoders p) model_type then model_type
                              else ''random_forest'') = None
                             \<longrightarrow> predict cv p image_path model_type t0 t1
                                   = failure ''Label encoder not available'' (t1 - t0))
                        \<and> (map_of (label_encoders p)
                             (if has_key (label_encoders p) model_type then model_type
                              else ''random_forest'') = Some None
                             \<longrightarrow> predict cv p image_path model_type t0 t1
                                   = failure (''Prediction error: ''
                                              @ attribute_error ''inverse_transform'') (t1 - t0))
                        \<and> (\<forall>enc e.
                             map_of (label_encoders p)
                               (if has_key (label_encoders p) model_type then model_type
                                else ''random_forest'') = Some (Some enc)
                             \<and> inverse_transform enc pred = Inl e
                             \<longrightarrow> predict cv p image_path model_type t0 t1
                                   = failure (''Prediction error: '' @ e) (t1 - t0)))))))))"
proof -
  have g1: "processing_time (predict cv p image_path model_type t0 t1) = t1 - t0"
    using predict_cases [of cv p image_path model_type t0 t1]
    by (auto simp: failure_simps)
  have g2: "\<not> success (predict cv p image_path model_type t0 t1)
        \<longrightarrow> prediction (predict cv p image_path model_type t0 t1) = ''Error''
          \<and> (\<exists>msg. msg \<noteq> [] \<and> message (predict cv p image_path model_type t0 t1) = Some msg)"
    using predict_cases [of cv p image_path model_type t0 t1]
    by (auto simp: failure_simps)
  have early: "predict cv p image_path mt t0 t1 =
                 fst (case predict_try cv p image_path mt (t1 - t0) of
                        (Inl e, calls) \<Rightarrow>
                          (failure (''Prediction error: '' @ e) (t1 - t0), calls)
                      | (Inr r, calls) \<Rightarrow> (r, calls))" for mt
    by (simp add: predict_def predict_run_def)
  show ?thesis
    apply (rule conjI [OF g1])
    apply (rule conjI [OF g2])
    apply (intro conjI allI impI)
                      apply (simp_all only: early)
                      apply (simp_all add: predict_try_def)
           apply (simp_all add: diseased_branch_def Let_def split: prod.splits)
       apply (simp_all add: resolve_label_def Let_def)
    apply (simp_all add: predict_disease_knn predict_disease_standard knn_branch_def
        knn_try_def standard_branch_def Let_def)
    done
qed

theorem predict_recovers_every_failure_witness:
  "predict stub_cv healthy_svm ''missing.jpg'' ''svm'' 3 5 = failure ''Could not load image'' 2
   \<and> predict failing_cv healthy_svm ''leaf.jpg'' ''svm'' 3 5
       = failure ''Prediction error: resize failed'' 2
   \<and> predict stub_cv (load_models knn_only_dir ''./models'') ''leaf.jpg'' ''knn'' 3 5
       = failure (''KNN disease prediction error: '' @ attribute_error ''predict'') 2
   \<and> predict stub_cv (rf_named\<lparr>label_encoders := []\<rparr>) ''leaf.jpg'' ''random_forest'' 3 5
       = failure ''Label encoder not available'' 2
   \<and> \<not> success (predict failing_cv healthy_svm ''leaf.jpg'' ''svm'' 3 5)
   \<and> prediction (predict failing_cv healthy_svm ''leaf.jpg'' ''svm'' 3 5) = ''Error''
   \<and> message (predict failing_cv healthy_svm ''leaf.jpg'' ''svm'' 3 5)
       = Some ''Prediction error: resize failed''
   \<and> processing_time (predict failing_cv healthy_svm ''leaf.jpg'' ''svm'' 3 5) = 2"
proof -
  have two: "(5::real) - 3 = 2" by simp
  have im0: "imread stub_cv ''missing.jpg'' = None"
    by (simp add: stub_cv_def)
  note a = predict_recovers_every_failure
    [of stub_cv healthy_svm "''missing.jpg''" "''svm''" 3 5,
      THEN conjunct2, THEN conjunct2, THEN conjunct1, THEN mp, OF im0]
  have im1: "imread failing_cv ''leaf.jpg'' = Some (uniform 256 256 green)"
    by (simp add: failing_cv_def stub_cv_def)
  have eh1: "extract_health_features failing_cv (uniform 256 256 green) = Inl ''resize failed''"
    by (simp add: failing_cv_def extract_health_features_def bind_exn_def)
  note tb = predict_recovers_every_failure [of failing_cv healthy_svm "''leaf.jpg''" "''svm''" 3 5]
  note b = tb [THEN conjunct2, THEN conjunct2, THEN conjunct2, THEN spec, THEN mp, OF im1,
      THEN conjunct1, THEN spec, THEN mp, OF eh1]
  have h: "predict_fn (stub_health 1 [2 / 10, 8 / 10]) stub_health_features = Inr 1 \<and> (1::int) \<noteq> 0"
    by (simp add: stub_health_def)
  have hk: "map_of (models (load_models knn_only_dir ''./models'')) (''knn'' @ ''_health'')
              = Some (Some (stub_health 1 [2 / 10, 8 / 10]))"
    by (simp add: load_knn_only)
  have sk: "select_disease_model (load_models knn_only_dir ''./models'') ''knn'' = Some None"
    by (simp add: load_knn_only select_disease_model_def has_key_def)
  have kk: "''knn'' = ''knn'' \<and> has_key (models (load_models knn_only_dir ''./models'')) ''knn_disease''"
    by (simp add: load_knn_only has_key_def)
  note c = predict_recovers_every_failure
    [of stub_cv "load_models knn_only_dir ''./models''" "''leaf.jpg''" "''knn''" 3 5,
      THEN conjunct2, THEN conjunct2, THEN conjunct2, THEN spec, THEN mp, OF stub_imread,
      THEN conjunct2, THEN spec, THEN mp, OF stub_extract_health,
      THEN conjunct2, THEN conjunct2, THEN spec, THEN mp, OF hk,
      THEN conjunct2, THEN spec, THEN mp, OF h,
      THEN conjunct2, THEN spec, THEN mp, OF stub_extract_disease,
      THEN conjunct2, THEN spec, THEN mp, OF sk,
      THEN conjunct1, THEN mp, OF kk, THEN conjunct1, THEN mp, OF refl]
  let ?q = "rf_named\<lparr>label_encoders := []\<rparr>"
  have hq: "map_of (models ?q) (''random_forest'' @ ''_health'')
              = Some (Some (stub_health 1 [2 / 10, 8 / 10]))"
    by (simp add: rf_named_def stub_predictor_def)
  have sq: "select_disease_model ?q ''random_forest''
              = Some (Some (stub_disease True (Some [''symmetry_score'', ''leaf_age'', ''mean_g''])))"
    by (simp add: rf_named_def stub_predictor_def select_disease_model_def has_key_def)
  have pq: "predict_disease ?q ''random_forest''
              (Some (stub_disease True (Some [''symmetry_score'', ''leaf_age'', ''mean_g''])))
              stub_features (5 - 3)
            = (Value (2, 8 / 10),
               [Disease_Predict (features_row [''symmetry_score'', ''leaf_age'', ''mean_g'']
                                   stub_features)])"
    by (simp add: predict_disease_def standard_branch_def stub_disease_def py_index_def)
  have eq: "map_of (label_encoders ?q)
              (if has_key (label_encoders ?q) ''random_forest'' then ''random_forest''
               else ''random_forest'') = None"
    by simp
  note d = predict_recovers_every_failure
    [of stub_cv ?q "''leaf.jpg''" "''random_forest''" 3 5,
      THEN conjunct2, THEN conjunct2, THEN conjunct2, THEN spec, THEN mp, OF stub_imread,
      THEN conjunct2, THEN spec, THEN mp, OF stub_extract_health,
      THEN conjunct2, THEN conjunct2, THEN spec, THEN mp, OF hq,
      THEN conjunct2, THEN spec, THEN mp, OF h,
      THEN conjunct2, THEN spec, THEN mp, OF stub_extract_disease,
      THEN conjunct2, THEN spec, THEN mp, OF sq,
      THEN conjunct2, THEN conjunct2, THEN spec, THEN spec, THEN spec, THEN mp, OF pq,
      THEN conjunct1, THEN mp, OF eq]
  from a b c d tb [THEN conjunct1] show ?thesis
    by (simp add: two failure_simps)
qed

end
